theory Spec2Isabelle
  imports Main "HOL-Library.Word"
begin

unbundle bit_operations_syntax

section \<open>Go values shared by the packages\<close>

text \<open>
  A Go \<^verbatim>\<open>*string\<close> is a \<open>string option\<close> (\<open>None\<close> is the nil pointer). A Go
  \<^verbatim>\<open>error\<close> is an interface value: either it implements \<^verbatim>\<open>awserr.Error\<close> and
  carries a code and a message, or it is some other error that only has a message. The
  nil error is \<open>None\<close> of \<open>go_error option\<close>.

  The custom resource \<^verbatim>\<open>cr\<close>, the SDK input \<^verbatim>\<open>obj\<close>, the SDK output \<^verbatim>\<open>resp\<close> and the
  entries of a tag list are pointers that the functions below dereference without a
  check and that their callers always supply; they are modelled by the records they
  point to.
\<close>

datatype go_error = AwsErr (Code: string) (Message: string) | OtherErr string

fun Error :: "go_error \<Rightarrow> string" where
  "Error (AwsErr c m) = c @ '': '' @ m"
| "Error (OtherErr m) = m"

text \<open>
  Modelled from the spec: \<^verbatim>\<open>String\<close> of the repository's package \<^verbatim>\<open>pkg/clients\<close>, which the
  hooks import under the name \<^verbatim>\<open>aws\<close> and which is not among the sources. Called without
  field options, it gives the nil pointer for the empty string and a pointer to the
  string otherwise. \<^verbatim>\<open>StringValue\<close> reads a pointer back, the nil pointer as the empty
  string.
\<close>

definition aws_String :: "string \<Rightarrow> string option" where
  "aws_String s = (if s = [] then None else Some s)"

definition aws_StringValue :: "string option \<Rightarrow> string" where
  "aws_StringValue p = (case p of None \<Rightarrow> [] | Some s \<Rightarrow> s)"


section \<open>servicediscovery: HTTPNamespace conversions\<close>

record Tag =
  Key :: "string option"
  Value :: "string option"

text \<open>\<^verbatim>\<open>Tags\<close> is a slice: \<open>None\<close> is the nil slice, \<open>Some []\<close> an empty one.\<close>

record HTTPNamespaceParameters =
  Region :: string
  CreatorRequestID :: "string option"
  Description :: "string option"
  Name :: "string option"
  Tags :: "Tag list option"

record HTTPNamespaceSpec =
  ForProvider :: HTTPNamespaceParameters

record HTTPNamespace =
  Spec :: HTTPNamespaceSpec

record CreateHttpNamespaceInput =
  inCreatorRequestId :: "string option"
  inDescription :: "string option"
  inName :: "string option"
  inTags :: "Tag list option"

record HttpNamespaceChange =
  chDescription :: "string option"

record UpdateHttpNamespaceInput =
  upId :: "string option"
  upNamespace :: "HttpNamespaceChange option"
  upUpdaterRequestId :: "string option"

definition emptyCreateHttpNamespaceInput :: CreateHttpNamespaceInput where
  "emptyCreateHttpNamespaceInput =
     \<lparr>inCreatorRequestId = None, inDescription = None, inName = None, inTags = None\<rparr>"

definition emptyUpdateHttpNamespaceInput :: UpdateHttpNamespaceInput where
  "emptyUpdateHttpNamespaceInput =
     \<lparr>upId = None, upNamespace = None, upUpdaterRequestId = None\<rparr>"

text \<open>The body of the loop over the tags: a fresh tag, then Key and Value set when non-nil.\<close>

definition copyTag :: "Tag \<Rightarrow> Tag" where
  "copyTag f2iter =
     (let f2elem = \<lparr>Key = None, Value = None\<rparr>;
          f2elem = (case Key f2iter of None \<Rightarrow> f2elem | Some k \<Rightarrow> f2elem\<lparr>Key := Some k\<rparr>);
          f2elem = (case Value f2iter of None \<Rightarrow> f2elem | Some v \<Rightarrow> f2elem\<lparr>Value := Some v\<rparr>)
      in f2elem)"

fun copyTags :: "Tag list \<Rightarrow> Tag list \<Rightarrow> Tag list" where
  "copyTags f2 [] = f2"
| "copyTags f2 (f2iter # rest) = copyTags (f2 @ [copyTag f2iter]) rest"

definition GenerateCreateHttpNamespaceInput :: "HTTPNamespace \<Rightarrow> CreateHttpNamespaceInput" where
  "GenerateCreateHttpNamespaceInput cr =
     (let p = ForProvider (Spec cr);
          res = emptyCreateHttpNamespaceInput;
          res = (case Description p of None \<Rightarrow> res | Some d \<Rightarrow> res\<lparr>inDescription := Some d\<rparr>);
          res = (case Name p of None \<Rightarrow> res | Some n \<Rightarrow> res\<lparr>inName := Some n\<rparr>);
          res = (case Tags p of None \<Rightarrow> res | Some ts \<Rightarrow> res\<lparr>inTags := Some (copyTags [] ts)\<rparr>)
      in res)"

definition GenerateUpdateHttpNamespaceInput :: "HTTPNamespace \<Rightarrow> UpdateHttpNamespaceInput" where
  "GenerateUpdateHttpNamespaceInput cr = (let res = emptyUpdateHttpNamespaceInput in res)"

text \<open>
  \<^verbatim>\<open>awsErr, ok := err.(awserr.Error); return ok && awsErr.Code() == "UNKNOWN"\<close>:
  the type assertion fails on the nil error and on an error of another type.
\<close>

definition IsNotFound :: "go_error option \<Rightarrow> bool" where
  "IsNotFound err =
     (case err of
        Some (AwsErr c m) \<Rightarrow> c = ''UNKNOWN''
      | _ \<Rightarrow> False)"

text \<open>
  The error codes with which the servicediscovery API reports a missing namespace,
  service, instance, operation or resource (constants of the AWS SDK).
\<close>

definition ErrCodeNamespaceNotFound :: string where
  "ErrCodeNamespaceNotFound = ''NamespaceNotFound''"

definition ErrCodeServiceNotFound :: string where
  "ErrCodeServiceNotFound = ''ServiceNotFound''"

definition ErrCodeInstanceNotFound :: string where
  "ErrCodeInstanceNotFound = ''InstanceNotFound''"

definition ErrCodeOperationNotFound :: string where
  "ErrCodeOperationNotFound = ''OperationNotFound''"

definition ErrCodeResourceNotFoundException :: string where
  "ErrCodeResourceNotFoundException = ''ResourceNotFoundException''"


section \<open>apigatewayv2: the IntegrationResponse hooks\<close>

text \<open>
  Conditions of crossplane-runtime (\<^verbatim>\<open>xpv1\<close>). A condition's type and reason are strings;
  the time of the last transition is a reading of the clock.
\<close>

datatype ConditionStatus = ConditionTrue | ConditionFalse | ConditionUnknown

record Condition =
  cType :: string
  cStatus :: ConditionStatus
  cLastTransitionTime :: nat
  cReason :: string
  cMessage :: string

definition TypeReady :: string where
  "TypeReady = ''Ready''"

definition ReasonAvailable :: string where
  "ReasonAvailable = ''Available''"

text \<open>\<^verbatim>\<open>xpv1.Available()\<close>: the resource is ready, as of now.\<close>

definition Available :: "nat \<Rightarrow> Condition" where
  "Available now =
     \<lparr>cType = TypeReady, cStatus = ConditionTrue, cLastTransitionTime = now,
      cReason = ReasonAvailable, cMessage = []\<rparr>"

text \<open>\<^verbatim>\<open>Condition.Equal\<close> compares everything but the transition time.\<close>

definition Equal :: "Condition \<Rightarrow> Condition \<Rightarrow> bool" where
  "Equal c other \<longleftrightarrow>
     cType c = cType other \<and> cStatus c = cStatus other \<and>
     cReason c = cReason other \<and> cMessage c = cMessage other"

text \<open>
  \<^verbatim>\<open>ConditionedStatus.SetConditions\<close>: for each new condition, the inner loop walks the
  existing ones, skips those of another type, keeps one that is \<open>Equal\<close> and overwrites
  any other of the same type in place; a condition whose type was not met is appended.
  \<open>setLoop\<close> is the inner loop and returns the list with the flag \<^verbatim>\<open>exists\<close>.
\<close>

fun setLoop :: "Condition \<Rightarrow> Condition list \<Rightarrow> bool \<Rightarrow> Condition list \<times> bool" where
  "setLoop new [] ex = ([], ex)"
| "setLoop new (existing # rest) ex =
     (if cType existing \<noteq> cType new then
        (let (rest', ex') = setLoop new rest ex in (existing # rest', ex'))
      else if Equal existing new then
        (let (rest', ex') = setLoop new rest True in (existing # rest', ex'))
      else
        (let (rest', ex') = setLoop new rest True in (new # rest', ex')))"

definition setOne :: "Condition list \<Rightarrow> Condition \<Rightarrow> Condition list" where
  "setOne cs new = (let (cs', ex) = setLoop new cs False in if ex then cs' else cs' @ [new])"

definition SetConditions :: "Condition list \<Rightarrow> Condition list \<Rightarrow> Condition list" where
  "SetConditions cs new = foldl setOne cs new"

record IntegrationResponseParameters =
  irRegion :: string
  irContentHandlingStrategy :: "string option"
  irIntegrationResponseKey :: "string option"
  irResponseParameters :: "(string \<rightharpoonup> string) option"
  irResponseTemplates :: "(string \<rightharpoonup> string) option"
  irTemplateSelectionExpression :: "string option"
  irAPIID :: "string option"
  irIntegrationID :: "string option"

record IntegrationResponse =
  irAnnotations :: "string \<rightharpoonup> string"
  irForProvider :: IntegrationResponseParameters
  irConditions :: "Condition list"

record GetIntegrationResponseInput =
  giApiId :: "string option"
  giIntegrationId :: "string option"
  giIntegrationResponseId :: "string option"

record CreateIntegrationResponseInput =
  ciApiId :: "string option"
  ciContentHandlingStrategy :: "string option"
  ciIntegrationId :: "string option"
  ciIntegrationResponseKey :: "string option"
  ciResponseParameters :: "(string \<rightharpoonup> string) option"
  ciResponseTemplates :: "(string \<rightharpoonup> string) option"
  ciTemplateSelectionExpression :: "string option"

record DeleteIntegrationResponseInput =
  diApiId :: "string option"
  diIntegrationId :: "string option"
  diIntegrationResponseId :: "string option"

record GetIntegrationResponseOutput =
  goContentHandlingStrategy :: "string option"
  goIntegrationResponseId :: "string option"
  goIntegrationResponseKey :: "string option"
  goTemplateSelectionExpression :: "string option"

record CreateIntegrationResponseOutput =
  coContentHandlingStrategy :: "string option"
  coIntegrationResponseId :: "string option"
  coIntegrationResponseKey :: "string option"
  coTemplateSelectionExpression :: "string option"

text \<open>
  \<^verbatim>\<open>managed.ExternalObservation\<close> and \<^verbatim>\<open>managed.ExternalCreation\<close>; the connection
  details are a map that may be nil.
\<close>

record ExternalObservation =
  ResourceExists :: bool
  ResourceUpToDate :: bool
  ResourceLateInitialized :: bool
  obsConnectionDetails :: "(string \<rightharpoonup> string) option"

record ExternalCreation =
  ExternalNameAssigned :: bool
  creConnectionDetails :: "(string \<rightharpoonup> string) option"

definition zeroExternalObservation :: ExternalObservation where
  "zeroExternalObservation =
     \<lparr>ResourceExists = False, ResourceUpToDate = False, ResourceLateInitialized = False,
      obsConnectionDetails = None\<rparr>"

definition zeroExternalCreation :: ExternalCreation where
  "zeroExternalCreation = \<lparr>ExternalNameAssigned = False, creConnectionDetails = None\<rparr>"

definition AnnotationKeyExternalName :: string where
  "AnnotationKeyExternalName = ''crossplane.io/external-name''"

text \<open>
  \<^verbatim>\<open>meta.GetExternalName\<close> reads the annotation (a missing key of a Go map reads as the
  empty string); \<^verbatim>\<open>meta.SetExternalName\<close> writes it.
\<close>

definition GetExternalName :: "IntegrationResponse \<Rightarrow> string" where
  "GetExternalName cr =
     (case irAnnotations cr AnnotationKeyExternalName of None \<Rightarrow> [] | Some v \<Rightarrow> v)"

definition SetExternalName :: "IntegrationResponse \<Rightarrow> string \<Rightarrow> IntegrationResponse" where
  "SetExternalName cr name =
     cr\<lparr>irAnnotations := (irAnnotations cr)(AnnotationKeyExternalName \<mapsto> name)\<rparr>"

text \<open>
  Each hook returns what it leaves behind: the SDK input or the custom resource as
  written, then the Go results. The context argument is unused by all five.
\<close>

definition preObserve ::
  "IntegrationResponse \<Rightarrow> GetIntegrationResponseInput \<Rightarrow>
   GetIntegrationResponseInput \<times> go_error option" where
  "preObserve cr obj =
     (let obj = obj\<lparr>giApiId := irAPIID (irForProvider cr)\<rparr>;
          obj = obj\<lparr>giIntegrationId := irIntegrationID (irForProvider cr)\<rparr>;
          obj = obj\<lparr>giIntegrationResponseId := aws_String (GetExternalName cr)\<rparr>
      in (obj, None))"

definition postObserve ::
  "nat \<Rightarrow> IntegrationResponse \<Rightarrow> GetIntegrationResponseOutput \<Rightarrow> ExternalObservation \<Rightarrow>
   go_error option \<Rightarrow> IntegrationResponse \<times> ExternalObservation \<times> go_error option" where
  "postObserve now cr resp obs err =
     (case err of
        Some e \<Rightarrow> (cr, zeroExternalObservation, Some e)
      | None \<Rightarrow>
          (cr\<lparr>irConditions := SetConditions (irConditions cr) [Available now]\<rparr>, obs, None))"

definition preCreate ::
  "IntegrationResponse \<Rightarrow> CreateIntegrationResponseInput \<Rightarrow>
   CreateIntegrationResponseInput \<times> go_error option" where
  "preCreate cr obj =
     (let obj = obj\<lparr>ciApiId := irAPIID (irForProvider cr)\<rparr>;
          obj = obj\<lparr>ciIntegrationId := irIntegrationID (irForProvider cr)\<rparr>
      in (obj, None))"

definition postCreate ::
  "IntegrationResponse \<Rightarrow> CreateIntegrationResponseOutput \<Rightarrow> ExternalCreation \<Rightarrow>
   go_error option \<Rightarrow> IntegrationResponse \<times> ExternalCreation \<times> go_error option" where
  "postCreate cr resp cre err =
     (case err of
        Some e \<Rightarrow> (cr, zeroExternalCreation, Some e)
      | None \<Rightarrow> (SetExternalName cr (aws_StringValue (coIntegrationResponseId resp)), cre, None))"

definition preDelete ::
  "IntegrationResponse \<Rightarrow> DeleteIntegrationResponseInput \<Rightarrow>
   DeleteIntegrationResponseInput \<times> bool \<times> go_error option" where
  "preDelete cr obj =
     (let obj = obj\<lparr>diApiId := irAPIID (irForProvider cr)\<rparr>;
          obj = obj\<lparr>diIntegrationId := irIntegrationID (irForProvider cr)\<rparr>;
          obj = obj\<lparr>diIntegrationResponseId := aws_String (GetExternalName cr)\<rparr>
      in (obj, False, None))"


section \<open>route53resolver: the ResolverEndpoint CRD schema\<close>

text \<open>
  The CRD is data: an OpenAPI v3 structural schema that the Kubernetes API server
  interprets. A JSON value is a \<open>json\<close>; an object keeps its members as an association
  list, read with \<open>map_of\<close>. A schema node is the list of its keywords, in the order of
  the YAML file; \<^verbatim>\<open>description\<close> keywords are left out, they constrain nothing.
\<close>

datatype json = JNull | JBool bool | JInt int | JString string
  | JArray "json list" | JObject "(string \<times> json) list"

datatype jtype = TObject | TArray | TString | TBoolean | TInteger

datatype keyword =
    Type jtype
  | Format string
  | Enum "json list"
  | Default json
  | Required "string list"
  | Properties "(string \<times> keyword list) list"
  | AdditionalProperties "keyword list"
  | Items "keyword list"

type_synonym schema = "keyword list"

text \<open>
  Validation, keyword by keyword. \<^verbatim>\<open>required\<close>, \<^verbatim>\<open>properties\<close> and
  \<^verbatim>\<open>additionalProperties\<close> constrain objects only and \<^verbatim>\<open>items\<close> arrays only; no node of
  this CRD is nullable, so null has none of the types. \<^verbatim>\<open>format\<close> is not checked and
  \<^verbatim>\<open>default\<close> does not validate: the set of accepted values is at least the API server's.
  \<open>d\<close> lists the property names declared beside an \<^verbatim>\<open>additionalProperties\<close> keyword.
\<close>

fun hasType :: "jtype \<Rightarrow> json \<Rightarrow> bool" where
  "hasType TObject (JObject _) = True"
| "hasType TArray (JArray _) = True"
| "hasType TString (JString _) = True"
| "hasType TBoolean (JBool _) = True"
| "hasType TInteger (JInt _) = True"
| "hasType _ _ = False"

definition declared :: "schema \<Rightarrow> string list" where
  "declared s = concat (map (\<lambda>kw. case kw of Properties ps \<Rightarrow> map fst ps | _ \<Rightarrow> []) s)"

fun validKeyword :: "string list \<Rightarrow> keyword \<Rightarrow> json \<Rightarrow> bool" where
  "validKeyword d (Type t) v = hasType t v"
| "validKeyword d (Format f) v = True"
| "validKeyword d (Enum vs) v = (v \<in> set vs)"
| "validKeyword d (Default x) v = True"
| "validKeyword d (Required ks) v =
     (case v of JObject kvs \<Rightarrow> (\<forall>k \<in> set ks. map_of kvs k \<noteq> None) | _ \<Rightarrow> True)"
| "validKeyword d (Properties ps) v =
     (case v of
        JObject kvs \<Rightarrow>
          (\<forall>p \<in> set ps.
             case map_of kvs (fst p) of
               None \<Rightarrow> True
             | Some x \<Rightarrow> (\<forall>kw \<in> set (snd p). validKeyword (declared (snd p)) kw x))
      | _ \<Rightarrow> True)"
| "validKeyword d (AdditionalProperties s) v =
     (case v of
        JObject kvs \<Rightarrow>
          (\<forall>kv \<in> set kvs. fst kv \<in> set d \<or> (\<forall>kw \<in> set s. validKeyword (declared s) kw (snd kv)))
      | _ \<Rightarrow> True)"
| "validKeyword d (Items s) v =
     (case v of
        JArray xs \<Rightarrow> (\<forall>x \<in> set xs. \<forall>kw \<in> set s. validKeyword (declared s) kw x)
      | _ \<Rightarrow> True)"

definition validates :: "schema \<Rightarrow> json \<Rightarrow> bool" where
  "validates s v = (\<forall>kw \<in> set s. validKeyword (declared s) kw v)"


text \<open>
  Defaulting, as the API server does it when it decodes an object: every declared
  property that has a default and is missing from the object (or null) is set to its
  default, then defaulting descends into every member, and into every item of an array.
\<close>

fun properties :: "schema \<Rightarrow> (string \<times> schema) list" where
  "properties [] = []"
| "properties (Properties ps # s) = ps @ properties s"
| "properties (_ # s) = properties s"

fun defaultOf :: "schema \<Rightarrow> json option" where
  "defaultOf [] = None"
| "defaultOf (Default d # s) = Some d"
| "defaultOf (_ # s) = defaultOf s"

fun additionalOf :: "schema \<Rightarrow> schema option" where
  "additionalOf [] = None"
| "additionalOf (AdditionalProperties a # s) = Some a"
| "additionalOf (_ # s) = additionalOf s"

fun itemsOf :: "schema \<Rightarrow> schema option" where
  "itemsOf [] = None"
| "itemsOf (Items i # s) = Some i"
| "itemsOf (_ # s) = itemsOf s"

definition isNull :: "json \<Rightarrow> bool" where
  "isNull v = (case v of JNull \<Rightarrow> True | _ \<Rightarrow> False)"

fun setKey :: "(string \<times> json) list \<Rightarrow> string \<Rightarrow> json \<Rightarrow> (string \<times> json) list" where
  "setKey [] k d = [(k, d)]"
| "setKey ((k', v) # kvs) k d = (if k' = k then (k', d) # kvs else (k', v) # setKey kvs k d)"

fun applyDefaults :: "(string \<times> schema) list \<Rightarrow> (string \<times> json) list \<Rightarrow> (string \<times> json) list" where
  "applyDefaults [] x = x"
| "applyDefaults ((k, prop) # ps) x =
     applyDefaults ps
       (case defaultOf prop of
          None \<Rightarrow> x
        | Some d \<Rightarrow>
            (case map_of x k of
               None \<Rightarrow> setKey x k d
             | Some v \<Rightarrow> if isNull v then setKey x k d else x))"

function Defaulting :: "schema \<Rightarrow> json \<Rightarrow> json" where
  "Defaulting s x =
     (case x of
        JObject kvs \<Rightarrow>
          JObject (map (\<lambda>kv.
              case map_of (properties s) (fst kv) of
                Some prop \<Rightarrow> (fst kv, Defaulting prop (snd kv))
              | None \<Rightarrow>
                  (case additionalOf s of
                     Some a \<Rightarrow> (fst kv, Defaulting a (snd kv))
                   | None \<Rightarrow> kv))
            (applyDefaults (properties s) kvs))
      | JArray xs \<Rightarrow>
          (case itemsOf s of
             Some i \<Rightarrow> JArray (map (Defaulting i) xs)
           | None \<Rightarrow> x)
      | _ \<Rightarrow> x)"
  by pat_completeness auto
termination
proof -
  have props: "(k, p) \<in> set (properties s) \<Longrightarrow> size_list size p < size_list size s"
    for k p and s :: schema
  proof (induction s rule: properties.induct)
    case (2 ps s)
    have "(k, p) \<in> set ps \<Longrightarrow> size_list size p < size (Properties ps)" for ps
      by (induction ps) auto
    with 2 show ?case by fastforce
  qed auto
  have addl: "additionalOf s = Some a \<Longrightarrow> size_list size a < size_list size s"
    for a and s :: schema
    by (induction s rule: additionalOf.induct) auto
  have items: "itemsOf s = Some a \<Longrightarrow> size_list size a < size_list size s"
    for a and s :: schema
    by (induction s rule: itemsOf.induct) auto
  show ?thesis
    apply (relation "measure (\<lambda>(s, x). size_list size s)")
     apply simp
    apply (auto dest!: map_of_SomeD props addl items)
    done
qed

text \<open>Reading a member of an object, and a member at the end of a path.\<close>

definition field :: "json \<Rightarrow> string \<Rightarrow> json option" where
  "field v k = (case v of JObject kvs \<Rightarrow> map_of kvs k | _ \<Rightarrow> None)"

fun fieldAt :: "json \<Rightarrow> string list \<Rightarrow> json option" where
  "fieldAt v [] = Some v"
| "fieldAt v (k # ks) = (case field v k of None \<Rightarrow> None | Some x \<Rightarrow> fieldAt x ks)"

text \<open>
  The schema of \<^verbatim>\<open>route53resolver.aws.crossplane.io_resolverendpoints.yaml\<close>, version
  v1alpha1. The reference node (an object with the required string \<^verbatim>\<open>name\<close>) and the
  selector node occur several times in the file, each time with the same keywords.
\<close>

definition deletionPolicySchema :: schema where
  "deletionPolicySchema =
     [Default (JString ''Delete''),
      Enum [JString ''Orphan'', JString ''Delete''],
      Type TString]"

definition selectorSchema :: schema where
  "selectorSchema =
     [Properties
        [(''matchControllerRef'', [Type TBoolean]),
         (''matchLabels'', [AdditionalProperties [Type TString], Type TObject])],
      Type TObject]"

definition referenceSchema :: schema where
  "referenceSchema =
     [Properties [(''name'', [Type TString])],
      Required [''name''],
      Type TObject]"

definition forProviderSchema :: schema where
  "forProviderSchema =
     [Properties
        [(''direction'', [Type TString]),
         (''ipAddresses'',
            [Items
               [Properties
                  [(''ip'', [Type TString]),
                   (''subnetId'', [Type TString]),
                   (''subnetIdRef'', referenceSchema),
                   (''subnetIdSelector'', selectorSchema)],
                Type TObject],
             Type TArray]),
         (''name'', [Type TString]),
         (''region'', [Type TString]),
         (''securityGroupIdRefs'', [Items referenceSchema, Type TArray]),
         (''securityGroupIdSelector'', selectorSchema),
         (''securityGroupIds'', [Items [Type TString], Type TArray]),
         (''tags'',
            [Items
               [Properties [(''key'', [Type TString]), (''value'', [Type TString])],
                Type TObject],
             Type TArray])],
      Required [''direction'', ''ipAddresses'', ''region''],
      Type TObject]"

definition specSchema :: schema where
  "specSchema =
     [Properties
        [(''deletionPolicy'', deletionPolicySchema),
         (''forProvider'', forProviderSchema),
         (''providerConfigRef'',
            Default (JObject [(''name'', JString ''default'')]) # referenceSchema),
         (''providerRef'', referenceSchema),
         (''writeConnectionSecretToRef'',
            [Properties [(''name'', [Type TString]), (''namespace'', [Type TString])],
             Required [''name'', ''namespace''],
             Type TObject])],
      Required [''forProvider''],
      Type TObject]"

definition statusSchema :: schema where
  "statusSchema =
     [Properties
        [(''atProvider'',
            [Properties
               [(''arn'', [Type TString]),
                (''creationTime'', [Type TString]),
                (''creatorRequestID'', [Type TString]),
                (''hostVPCID'', [Type TString]),
                (''id'', [Type TString]),
                (''ipAddressCount'', [Format ''int64'', Type TInteger]),
                (''modificationTime'', [Type TString]),
                (''securityGroupIDs'', [Items [Type TString], Type TArray]),
                (''status'', [Type TString]),
                (''statusMessage'', [Type TString])],
             Type TObject]),
         (''conditions'',
            [Items
               [Properties
                  [(''lastTransitionTime'', [Format ''date-time'', Type TString]),
                   (''message'', [Type TString]),
                   (''reason'', [Type TString]),
                   (''status'', [Type TString]),
                   (''type'', [Type TString])],
                Required [''lastTransitionTime'', ''reason'', ''status'', ''type''],
                Type TObject],
             Type TArray])],
      Type TObject]"

definition openAPIV3Schema :: schema where
  "openAPIV3Schema =
     [Properties
        [(''apiVersion'', [Type TString]),
         (''kind'', [Type TString]),
         (''metadata'', [Type TObject]),
         (''spec'', specSchema),
         (''status'', statusSchema)],
      Required [''spec''],
      Type TObject]"


section \<open>cache: the ElastiCache replication group controller\<close>

text \<open>
  Of this package only the test file is among the sources. The types below follow the
  fixtures of that file; every function of the package is modelled from its test table
  and says so. Constants and helpers that the tests name but do not define (the
  finalizer name, the reasons, the name prefix, the secret keys, the comparison that
  decides whether AWS must be updated) are parameters, collected in \<open>deps\<close>.
\<close>

record deps =
  NamePrefix :: string
  finalizerName :: string
  reasonCreatingResource :: string
  reasonSyncingResource :: string
  reasonDeletingResource :: string
  APIVersion :: string
  ReplicationGroupKind :: string
  ResourceCredentialsSecretEndpointKey :: string
  ResourceCredentialsSecretPasswordKey :: string

text \<open>
  The conditions of \<^verbatim>\<open>corev1alpha1\<close>, by the names the tests use. The tests compare
  conditions without their transition times, which are left out.
\<close>

datatype ConditionType = Pending | Creating | Deleting | Failed | Ready

record DeprecatedCondition =
  dcType :: ConditionType
  dcStatus :: ConditionStatus
  dcReason :: string
  dcMessage :: string

record ObjectMeta =
  omNamespace :: string
  omName :: string
  omUID :: string
  omFinalizers :: "string list"

record ReplicationGroupSpec =
  AutomaticFailoverEnabled :: bool
  CacheNodeType :: string
  CacheParameterGroupName :: string
  EngineVersion :: string
  PreferredMaintenanceWindow :: string
  SnapshotRetentionLimit :: int
  SnapshotWindow :: string
  TransitEncryptionEnabled :: bool
  AuthEnabled :: bool
  ProviderRef :: string
  ConnectionSecretRef :: string
  ReclaimPolicy :: string

record ReplicationGroupStatus =
  Conditions :: "DeprecatedCondition list"
  State :: string
  GroupName :: string
  ProviderID :: string
  Endpoint :: string
  Port :: int
  ClusterEnabled :: bool
  MemberClusters :: "string list"

record ReplicationGroup =
  rgMeta :: ObjectMeta
  rgSpec :: ReplicationGroupSpec
  rgStatus :: ReplicationGroupStatus

definition ReclaimDelete :: string where
  "ReclaimDelete = ''Delete''"

definition ReclaimRetain :: string where
  "ReclaimRetain = ''Retain''"

text \<open>
  Modelled from the spec: the constants \<^verbatim>\<open>v1alpha1.StatusCreating\<close> and its like, which are
  not among the sources: the states of a replication group as the AWS API reports them.
\<close>

definition StatusCreating :: string where
  "StatusCreating = ''creating''"

definition StatusAvailable :: string where
  "StatusAvailable = ''available''"

definition StatusModifying :: string where
  "StatusModifying = ''modifying''"

definition StatusDeleting :: string where
  "StatusDeleting = ''deleting''"

text \<open>What the AWS SDK describes: a replication group and a cache cluster.\<close>

record awsEndpoint =
  epAddress :: "string option"
  epPort :: "int option"

record awsReplicationGroup =
  awsStatus :: "string option"
  awsMemberClusters :: "string list"
  awsAutomaticFailover :: string
  awsCacheNodeType :: "string option"
  awsSnapshotRetentionLimit :: "int option"
  awsSnapshotWindow :: "string option"
  awsConfigurationEndpoint :: "awsEndpoint option"

record awsCacheCluster =
  ccEngineVersion :: "string option"
  ccPreferredMaintenanceWindow :: "string option"

text \<open>
  The client, as \<^verbatim>\<open>fake.MockClient\<close> has it: one answer per request of the API. A
  request that sends nothing back but an error answers with \<open>go_error option\<close>. The
  replication group is asked for by name, so a description is of that one group.
\<close>

record MockClient =
  MockCreateReplicationGroupRequest :: "go_error option"
  MockDescribeReplicationGroupsRequest :: "go_error + awsReplicationGroup"
  MockDescribeCacheClustersRequest :: "string \<Rightarrow> go_error + awsCacheCluster list"
  MockModifyReplicationGroupRequest :: "go_error option"
  MockDeleteReplicationGroupRequest :: "go_error option"

text \<open>The requests a function sent, in order, each with whether it succeeded.\<close>

datatype apiCall =
    CreateReplicationGroup
  | DescribeReplicationGroups
  | DescribeCacheClusters string
  | ModifyReplicationGroup
  | DeleteReplicationGroup

type_synonym callLog = "(apiCall \<times> bool) list"

definition anyFailed :: "callLog \<Rightarrow> bool" where
  "anyFailed calls = list_ex (\<lambda>c. \<not> snd c) calls"

definition issued :: "apiCall \<Rightarrow> callLog \<Rightarrow> bool" where
  "issued a calls = list_ex (\<lambda>c. fst c = a) calls"

text \<open>\<^verbatim>\<open>errors.Wrapf(err, msg)\<close>: its text is the message, a colon and the text of the cause.\<close>

definition Wrapf :: "go_error \<Rightarrow> string \<Rightarrow> go_error" where
  "Wrapf err msg = OtherErr (msg @ '': '' @ Error err)"

text \<open>
  Modelled from the spec: the condition setters of \<^verbatim>\<open>ConditionedStatus\<close>, which are not
  among the sources. In the test tables a set condition takes the place of the first
  condition of its type or else goes to the end of the list, and unsetting all
  conditions turns every status to false.
\<close>

fun SetCondition :: "DeprecatedCondition \<Rightarrow> DeprecatedCondition list \<Rightarrow> DeprecatedCondition list" where
  "SetCondition new [] = [new]"
| "SetCondition new (c # cs) =
     (if dcType c = dcType new then new # cs else c # SetCondition new cs)"

definition UnsetAllConditions :: "DeprecatedCondition list \<Rightarrow> DeprecatedCondition list" where
  "UnsetAllConditions cs = map (\<lambda>c. c\<lparr>dcStatus := ConditionFalse\<rparr>) cs"

fun GetCondition :: "ConditionType \<Rightarrow> DeprecatedCondition list \<Rightarrow> DeprecatedCondition option" where
  "GetCondition t [] = None"
| "GetCondition t (c # cs) = (if dcType c = t then Some c else GetCondition t cs)"

definition NewCondition :: "ConditionType \<Rightarrow> string \<Rightarrow> string \<Rightarrow> DeprecatedCondition" where
  "NewCondition t reason msg =
     \<lparr>dcType = t, dcStatus = ConditionTrue, dcReason = reason, dcMessage = msg\<rparr>"

definition withConditions ::
  "(DeprecatedCondition list \<Rightarrow> DeprecatedCondition list) \<Rightarrow> ReplicationGroup \<Rightarrow> ReplicationGroup" where
  "withConditions f g = g\<lparr>rgStatus := (rgStatus g)\<lparr>Conditions := f (Conditions (rgStatus g))\<rparr>\<rparr>"

definition SetFailed :: "string \<Rightarrow> string \<Rightarrow> ReplicationGroup \<Rightarrow> ReplicationGroup" where
  "SetFailed reason msg = withConditions (SetCondition (NewCondition Failed reason msg))"

definition SetCreating :: "ReplicationGroup \<Rightarrow> ReplicationGroup" where
  "SetCreating = withConditions (SetCondition (NewCondition Creating [] []))"

definition SetDeleting :: "ReplicationGroup \<Rightarrow> ReplicationGroup" where
  "SetDeleting = withConditions (SetCondition (NewCondition Deleting [] []))"

definition SetReady :: "ReplicationGroup \<Rightarrow> ReplicationGroup" where
  "SetReady = withConditions (SetCondition (NewCondition Ready [] []))"

definition UnsetAll :: "ReplicationGroup \<Rightarrow> ReplicationGroup" where
  "UnsetAll = withConditions UnsetAllConditions"

text \<open>Modelled from the spec: a finalizer is added once and removed wherever it stands.\<close>

definition AddFinalizer :: "string \<Rightarrow> ReplicationGroup \<Rightarrow> ReplicationGroup" where
  "AddFinalizer f g =
     (if f \<in> set (omFinalizers (rgMeta g)) then g
      else g\<lparr>rgMeta := (rgMeta g)\<lparr>omFinalizers := omFinalizers (rgMeta g) @ [f]\<rparr>\<rparr>)"

definition RemoveFinalizer :: "string \<Rightarrow> ReplicationGroup \<Rightarrow> ReplicationGroup" where
  "RemoveFinalizer f g =
     g\<lparr>rgMeta := (rgMeta g)\<lparr>omFinalizers := filter (\<lambda>x. x \<noteq> f) (omFinalizers (rgMeta g))\<rparr>\<rparr>"

text \<open>
  The 64-bit FNV-1a hash of Go's \<^verbatim>\<open>hash/fnv\<close>: from the offset basis, each byte is
  xor-ed in and the sum multiplied by the prime, modulo \<open>2^64\<close>.
\<close>

definition fnvOffset64 :: "64 word" where
  "fnvOffset64 = 14695981039346656037"

definition fnvPrime64 :: "64 word" where
  "fnvPrime64 = 1099511628211"

definition fnv64a :: "string \<Rightarrow> 64 word" where
  "fnv64a s = foldl (\<lambda>h c. (h XOR of_char c) * fnvPrime64) fnvOffset64 s"

definition hexDigit :: "int \<Rightarrow> char" where
  "hexDigit d = ''0123456789abcdef'' ! nat d"

function toHex :: "int \<Rightarrow> string" where
  "toHex n = (if n < 16 then [hexDigit n] else toHex (n div 16) @ [hexDigit (n mod 16)])"
  by pat_completeness auto
termination
  by (relation "measure nat") auto

text \<open>
  Modelled from the spec: \<^verbatim>\<open>elasticacheclient.NewReplicationGroupID\<close>, which is not among
  the sources. The name is the prefix, a dash and the FNV-64a hash of the UID in
  lowercase hexadecimal; the test file has its value for one UID.
\<close>

definition NewReplicationGroupID :: "deps \<Rightarrow> ReplicationGroup \<Rightarrow> string" where
  "NewReplicationGroupID K g =
     NamePrefix K @ ''-'' @ toHex (uint (fnv64a (omUID (rgMeta g))))"

text \<open>
  Modelled from the spec: \<^verbatim>\<open>elastiCache.Create\<close>, which is not among the sources. It sends
  CreateReplicationGroup. On an error the resource gets the Failed condition with the
  reason for creating and the text of the error. Otherwise it gets its group name, the
  Creating condition and the finalizer. Either way the caller is to requeue.
\<close>

definition Create :: "deps \<Rightarrow> MockClient \<Rightarrow> ReplicationGroup \<Rightarrow> ReplicationGroup \<times> bool \<times> callLog" where
  "Create K client g =
     (case MockCreateReplicationGroupRequest client of
        Some err \<Rightarrow>
          (SetFailed (reasonCreatingResource K) (Error err) g, True,
           [(CreateReplicationGroup, False)])
      | None \<Rightarrow>
          (let g = g\<lparr>rgStatus := (rgStatus g)\<lparr>GroupName := NewReplicationGroupID K g\<rparr>\<rparr>;
               g = SetCreating g;
               g = AddFinalizer (finalizerName K) g
           in (g, True, [(CreateReplicationGroup, True)])))"

text \<open>
  Modelled from the spec: the step of \<^verbatim>\<open>elastiCache.Sync\<close> that describes the cache
  clusters of a group, one by one in the order of the member list; the first error ends
  the walk and is wrapped with the name of the cluster, as the test table expects.
\<close>

fun describeCacheClusters ::
  "MockClient \<Rightarrow> string list \<Rightarrow> (go_error + awsCacheCluster list) \<times> callLog" where
  "describeCacheClusters client [] = (Inr [], [])"
| "describeCacheClusters client (cid # cids) =
     (case MockDescribeCacheClustersRequest client cid of
        Inl err \<Rightarrow>
          (Inl (Wrapf err (''cannot describe cache cluster '' @ cid)),
           [(DescribeCacheClusters cid, False)])
      | Inr ccs \<Rightarrow>
          (case describeCacheClusters client cids of
             (Inl err, calls) \<Rightarrow> (Inl err, (DescribeCacheClusters cid, True) # calls)
           | (Inr others, calls) \<Rightarrow> (Inr (ccs @ others), (DescribeCacheClusters cid, True) # calls)))"

text \<open>
  Modelled from the spec: \<^verbatim>\<open>elastiCache.Sync\<close>, which is not among the sources. It
  describes the group; an error gives the Failed condition with the reason for syncing
  and a requeue. Otherwise the reported status becomes \<open>State\<close> and all conditions are
  unset. A group that is creating gets the Creating condition and a requeue, one that is
  deleting the Deleting condition and no requeue, one that is modifying a requeue. Any
  other group is taken as available: it gets the Ready condition, its endpoint, port
  and member clusters, its cache clusters are described, and if \<open>needsUpdate\<close> says so
  ModifyReplicationGroup is sent. An error of either request gives the Failed condition
  and a requeue; without one there is no requeue. \<open>needsUpdate\<close> stands for the
  comparison of the spec with what AWS described, which is not among the sources.
\<close>

definition Sync ::
  "deps \<Rightarrow> (ReplicationGroup \<Rightarrow> awsReplicationGroup \<Rightarrow> awsCacheCluster list \<Rightarrow> bool) \<Rightarrow>
   MockClient \<Rightarrow> ReplicationGroup \<Rightarrow> ReplicationGroup \<times> bool \<times> callLog" where
  "Sync K needsUpdate client g =
     (case MockDescribeReplicationGroupsRequest client of
        Inl err \<Rightarrow>
          (SetFailed (reasonSyncingResource K) (Error err) g, True,
           [(DescribeReplicationGroups, False)])
      | Inr rg \<Rightarrow>
          (let g = g\<lparr>rgStatus := (rgStatus g)\<lparr>State := aws_StringValue (awsStatus rg)\<rparr>\<rparr>;
               g = UnsetAll g;
               described = [(DescribeReplicationGroups, True)]
           in if State (rgStatus g) = StatusCreating then (SetCreating g, True, described)
              else if State (rgStatus g) = StatusDeleting then (SetDeleting g, False, described)
              else if State (rgStatus g) = StatusModifying then (g, True, described)
              else
                (let g = SetReady g;
                     ep = (case awsConfigurationEndpoint rg of
                             None \<Rightarrow> \<lparr>epAddress = None, epPort = None\<rparr>
                           | Some e \<Rightarrow> e);
                     g = g\<lparr>rgStatus := (rgStatus g)
                           \<lparr>Endpoint := aws_StringValue (epAddress ep),
                            Port := (case epPort ep of None \<Rightarrow> 0 | Some p \<Rightarrow> p),
                            MemberClusters := awsMemberClusters rg\<rparr>\<rparr>
                 in case describeCacheClusters client (awsMemberClusters rg) of
                      (Inl err, calls) \<Rightarrow>
                        (SetFailed (reasonSyncingResource K) (Error err) g, True,
                         described @ calls)
                    | (Inr ccs, calls) \<Rightarrow>
                        if \<not> needsUpdate g rg ccs then (g, False, described @ calls)
                        else
                          (case MockModifyReplicationGroupRequest client of
                             Some err \<Rightarrow>
                               (SetFailed (reasonSyncingResource K) (Error err) g, True,
                                described @ calls @ [(ModifyReplicationGroup, False)])
                           | None \<Rightarrow>
                               (g, False,
                                described @ calls @ [(ModifyReplicationGroup, True)])))))"

text \<open>
  Modelled from the spec: \<^verbatim>\<open>elastiCache.Delete\<close>, which is not among the sources. Only
  under the reclaim policy Delete is DeleteReplicationGroup sent; its error gives the
  Failed condition with the reason for deleting and a requeue. Otherwise the resource
  gets the Deleting condition, loses the finalizer, and there is no requeue.
\<close>

definition Delete :: "deps \<Rightarrow> MockClient \<Rightarrow> ReplicationGroup \<Rightarrow> ReplicationGroup \<times> bool \<times> callLog" where
  "Delete K client g =
     (let (failure, calls) =
            (if ReclaimPolicy (rgSpec g) = ReclaimDelete
             then (MockDeleteReplicationGroupRequest client,
                   [(DeleteReplicationGroup, MockDeleteReplicationGroupRequest client = None)])
             else (None, []))
      in case failure of
           Some err \<Rightarrow> (SetFailed (reasonDeletingResource K) (Error err) g, True, calls)
         | None \<Rightarrow> (RemoveFinalizer (finalizerName K) (SetDeleting g), False, calls))"

text \<open>
  Modelled from the spec: \<^verbatim>\<open>connectionSecret\<close>, which is not among the sources: the
  secret of the test \<^verbatim>\<open>TestConnectionSecret\<close>, for any group and password.
\<close>

record OwnerReference =
  orAPIVersion :: string
  orKind :: string
  orName :: string
  orUID :: string

record Secret =
  secName :: string
  secNamespace :: string
  secOwnerReferences :: "OwnerReference list"
  secData :: "string \<rightharpoonup> string"

definition connectionSecret :: "deps \<Rightarrow> ReplicationGroup \<Rightarrow> string \<Rightarrow> Secret" where
  "connectionSecret K r password =
     \<lparr>secName = ConnectionSecretRef (rgSpec r),
      secNamespace = omNamespace (rgMeta r),
      secOwnerReferences =
        [\<lparr>orAPIVersion = APIVersion K, orKind = ReplicationGroupKind K,
          orName = omName (rgMeta r), orUID = omUID (rgMeta r)\<rparr>],
      secData =
        [ResourceCredentialsSecretEndpointKey K \<mapsto> Endpoint (rgStatus r),
         ResourceCredentialsSecretPasswordKey K \<mapsto> password]\<rparr>"


section \<open>Example inputs\<close>

definition exIntegrationResponse :: IntegrationResponse where
  "exIntegrationResponse =
     \<lparr>irAnnotations = [AnnotationKeyExternalName \<mapsto> ''resp-1''],
      irForProvider =
        \<lparr>irRegion = ''us-east-1'', irContentHandlingStrategy = None,
         irIntegrationResponseKey = Some ''$default'', irResponseParameters = None,
         irResponseTemplates = None, irTemplateSelectionExpression = None,
         irAPIID = Some ''api-1'', irIntegrationID = Some ''int-1''\<rparr>,
      irConditions =
        [\<lparr>cType = ''Ready'', cStatus = ConditionFalse, cLastTransitionTime = 1,
          cReason = ''Creating'', cMessage = []\<rparr>,
         \<lparr>cType = ''Synced'', cStatus = ConditionTrue, cLastTransitionTime = 2,
          cReason = ''ReconcileSuccess'', cMessage = []\<rparr>]\<rparr>"

definition exGetInput :: GetIntegrationResponseInput where
  "exGetInput = \<lparr>giApiId = None, giIntegrationId = None, giIntegrationResponseId = None\<rparr>"

definition exCreateInput :: CreateIntegrationResponseInput where
  "exCreateInput =
     \<lparr>ciApiId = None, ciContentHandlingStrategy = Some ''CONVERT_TO_TEXT'',
      ciIntegrationId = None, ciIntegrationResponseKey = Some ''$default'',
      ciResponseParameters = None, ciResponseTemplates = None,
      ciTemplateSelectionExpression = None\<rparr>"

definition exDeleteInput :: DeleteIntegrationResponseInput where
  "exDeleteInput = \<lparr>diApiId = None, diIntegrationId = None, diIntegrationResponseId = None\<rparr>"

definition exGetOutput :: GetIntegrationResponseOutput where
  "exGetOutput =
     \<lparr>goContentHandlingStrategy = None, goIntegrationResponseId = Some ''resp-1'',
      goIntegrationResponseKey = Some ''$default'', goTemplateSelectionExpression = None\<rparr>"

definition exCreateOutput :: CreateIntegrationResponseOutput where
  "exCreateOutput =
     \<lparr>coContentHandlingStrategy = None, coIntegrationResponseId = Some ''resp-2'',
      coIntegrationResponseKey = Some ''$default'', coTemplateSelectionExpression = None\<rparr>"

definition exObservation :: ExternalObservation where
  "exObservation =
     \<lparr>ResourceExists = True, ResourceUpToDate = True, ResourceLateInitialized = False,
      obsConnectionDetails = None\<rparr>"

definition exCreation :: ExternalCreation where
  "exCreation = \<lparr>ExternalNameAssigned = False, creConnectionDetails = None\<rparr>"

definition exResolverEndpoint :: json where
  "exResolverEndpoint =
     JObject
       [(''apiVersion'', JString ''route53resolver.aws.crossplane.io/v1alpha1''),
        (''kind'', JString ''ResolverEndpoint''),
        (''metadata'', JObject [(''name'', JString ''inbound'')]),
        (''spec'', JObject
           [(''forProvider'', JObject
               [(''direction'', JString ''INBOUND''),
                (''ipAddresses'', JArray [JObject [(''subnetId'', JString ''subnet-1'')],
                                         JObject [(''subnetId'', JString ''subnet-2'')]]),
                (''region'', JString ''us-east-1''),
                (''securityGroupIds'', JArray [JString ''sg-1''])])])]"


definition exRetainEndpoint :: json where
  "exRetainEndpoint =
     JObject
       [(''spec'', JObject
           [(''deletionPolicy'', JString ''Retain''),
            (''forProvider'', JObject
               [(''direction'', JString ''INBOUND''),
                (''ipAddresses'', JArray []),
                (''region'', JString ''us-east-1'')])])]"

definition exNoRegionEndpoint :: json where
  "exNoRegionEndpoint =
     JObject
       [(''spec'', JObject
           [(''deletionPolicy'', JString ''Orphan''),
            (''forProvider'', JObject
               [(''direction'', JString ''INBOUND''),
                (''ipAddresses'', JArray [])])])]"

text \<open>
  The fixtures of the cache controller's test file. The values of \<open>exDeps\<close> are examples:
  the constants they stand for are not among the sources.
\<close>

definition exDeps :: deps where
  "exDeps =
     \<lparr>NamePrefix = ''ec'', finalizerName = ''finalizer.replicationgroup'',
      reasonCreatingResource = ''Failed to create resource'',
      reasonSyncingResource = ''Failed to sync resource'',
      reasonDeletingResource = ''Failed to delete resource'',
      APIVersion = ''cache.aws.crossplane.io/v1alpha1'',
      ReplicationGroupKind = ''ReplicationGroup'',
      ResourceCredentialsSecretEndpointKey = ''endpoint'',
      ResourceCredentialsSecretPasswordKey = ''password''\<rparr>"

definition errorBoom :: go_error where
  "errorBoom = OtherErr ''boom''"

definition cacheClusterID :: string where
  "cacheClusterID = ''ec-efdd8494195d7940-0001''"

definition replicationGroup :: ReplicationGroup where
  "replicationGroup =
     \<lparr>rgMeta =
        \<lparr>omNamespace = ''coolNamespace'', omName = ''coolGroup'',
         omUID = ''definitely-a-uuid'', omFinalizers = []\<rparr>,
      rgSpec =
        \<lparr>AutomaticFailoverEnabled = True, CacheNodeType = ''n1.super.cool'',
         CacheParameterGroupName = ''coolParamGroup'', EngineVersion = ''5.0.0'',
         PreferredMaintenanceWindow = ''tomorrow'', SnapshotRetentionLimit = 1,
         SnapshotWindow = ''thedayaftertomorrow'', TransitEncryptionEnabled = True,
         AuthEnabled = False, ProviderRef = ''cool-aws'',
         ConnectionSecretRef = ''cool-connection-secret'', ReclaimPolicy = []\<rparr>,
      rgStatus =
        \<lparr>Conditions = [], State = [], GroupName = [], ProviderID = [], Endpoint = [],
         Port = 0, ClusterEnabled = False, MemberClusters = []\<rparr>\<rparr>"

definition withStatus ::
  "(ReplicationGroupStatus \<Rightarrow> ReplicationGroupStatus) \<Rightarrow> ReplicationGroup \<Rightarrow> ReplicationGroup" where
  "withStatus f r = r\<lparr>rgStatus := f (rgStatus r)\<rparr>"

definition withFinalizers :: "string list \<Rightarrow> ReplicationGroup \<Rightarrow> ReplicationGroup" where
  "withFinalizers f r = r\<lparr>rgMeta := (rgMeta r)\<lparr>omFinalizers := f\<rparr>\<rparr>"

definition withReclaimPolicy :: "string \<Rightarrow> ReplicationGroup \<Rightarrow> ReplicationGroup" where
  "withReclaimPolicy p r = r\<lparr>rgSpec := (rgSpec r)\<lparr>ReclaimPolicy := p\<rparr>\<rparr>"

definition withAuth :: "ReplicationGroup \<Rightarrow> ReplicationGroup" where
  "withAuth r = r\<lparr>rgSpec := (rgSpec r)\<lparr>AuthEnabled := True\<rparr>\<rparr>"

text \<open>A client none of whose requests fails, and the group that the tests let AWS describe.\<close>

definition describedGroup :: "string \<Rightarrow> awsReplicationGroup" where
  "describedGroup status =
     \<lparr>awsStatus = Some status, awsMemberClusters = [cacheClusterID],
      awsAutomaticFailover = ''enabled'', awsCacheNodeType = Some ''n1.super.cool'',
      awsSnapshotRetentionLimit = Some 1, awsSnapshotWindow = Some ''thedayaftertomorrow'',
      awsConfigurationEndpoint = Some \<lparr>epAddress = Some ''172.16.0.1'', epPort = Some 6379\<rparr>\<rparr>"

definition statusOnly :: "string \<Rightarrow> awsReplicationGroup" where
  "statusOnly status =
     \<lparr>awsStatus = Some status, awsMemberClusters = [], awsAutomaticFailover = [],
      awsCacheNodeType = None, awsSnapshotRetentionLimit = None, awsSnapshotWindow = None,
      awsConfigurationEndpoint = None\<rparr>"

definition mockClient :: "go_error + awsReplicationGroup \<Rightarrow> MockClient" where
  "mockClient described =
     \<lparr>MockCreateReplicationGroupRequest = None,
      MockDescribeReplicationGroupsRequest = described,
      MockDescribeCacheClustersRequest =
        (\<lambda>cid. Inr [\<lparr>ccEngineVersion = Some ''5.0.0'',
                       ccPreferredMaintenanceWindow = Some ''tomorrow''\<rparr>]),
      MockModifyReplicationGroupRequest = None,
      MockDeleteReplicationGroupRequest = None\<rparr>"


section \<open>Lemmas on the HTTPNamespace conversions\<close>

lemma copyTags_append: "copyTags acc ts = acc @ map copyTag ts"
  by (induction ts arbitrary: acc) simp_all

lemma copyTag_fields: "Key (copyTag t) = Key t" "Value (copyTag t) = Value t"
  by (simp_all add: copyTag_def Let_def split: option.splits)

lemma length_copyTags: "length (copyTags [] ts) = length ts"
  by (simp add: copyTags_append)

lemma nth_copyTags: "i < length ts \<Longrightarrow> copyTags [] ts ! i = copyTag (ts ! i)"
  by (simp add: copyTags_append)

text \<open>
  C7. For every HTTPNamespace resource, the create input carries the Description and the
  Name of spec.forProvider (set where the field is non-nil, unset where it is nil), its
  CreatorRequestId stays unset, and its Tags are unset for a nil tag list and otherwise a
  list of the same length whose i-th tag has the Key and the Value of the i-th tag of the
  spec (a nil Key or Value stays nil).
\<close>

theorem GenerateCreateHttpNamespaceInput_copies_fields:
  "inDescription (GenerateCreateHttpNamespaceInput cr) = Description (ForProvider (Spec cr)) \<and>
   inName (GenerateCreateHttpNamespaceInput cr) = Name (ForProvider (Spec cr)) \<and>
   inCreatorRequestId (GenerateCreateHttpNamespaceInput cr) = None \<and>
   (case Tags (ForProvider (Spec cr)) of
      None \<Rightarrow> inTags (GenerateCreateHttpNamespaceInput cr) = None
    | Some ts \<Rightarrow>
        (\<exists>f2. inTags (GenerateCreateHttpNamespaceInput cr) = Some f2 \<and>
           length f2 = length ts \<and>
           (\<forall>i < length ts. Key (f2 ! i) = Key (ts ! i) \<and> Value (f2 ! i) = Value (ts ! i))))"
  by (simp add: GenerateCreateHttpNamespaceInput_def emptyCreateHttpNamespaceInput_def Let_def
      length_copyTags nth_copyTags copyTag_fields split: option.splits)

theorem GenerateCreateHttpNamespaceInput_copies_fields_witness:
  "inDescription (GenerateCreateHttpNamespaceInput
      \<lparr>Spec = \<lparr>ForProvider = \<lparr>Region = ''us-east-1'', CreatorRequestID = Some ''req'',
         Description = None, Name = Some ''ns'',
         Tags = Some [\<lparr>Key = Some ''k'', Value = None\<rparr>, \<lparr>Key = None, Value = Some ''v''\<rparr>]\<rparr>\<rparr>\<rparr>) = None \<and>
   inName (GenerateCreateHttpNamespaceInput
      \<lparr>Spec = \<lparr>ForProvider = \<lparr>Region = ''us-east-1'', CreatorRequestID = Some ''req'',
         Description = None, Name = Some ''ns'',
         Tags = Some [\<lparr>Key = Some ''k'', Value = None\<rparr>, \<lparr>Key = None, Value = Some ''v''\<rparr>]\<rparr>\<rparr>\<rparr>) = Some ''ns'' \<and>
   (\<exists>f2. inTags (GenerateCreateHttpNamespaceInput
      \<lparr>Spec = \<lparr>ForProvider = \<lparr>Region = ''us-east-1'', CreatorRequestID = Some ''req'',
         Description = None, Name = Some ''ns'',
         Tags = Some [\<lparr>Key = Some ''k'', Value = None\<rparr>, \<lparr>Key = None, Value = Some ''v''\<rparr>]\<rparr>\<rparr>\<rparr>) = Some f2 \<and>
      length f2 = 2 \<and> Key (f2 ! 0) = Some ''k'' \<and> Value (f2 ! 0) = None \<and>
      Key (f2 ! 1) = None \<and> Value (f2 ! 1) = Some ''v'')"
  using GenerateCreateHttpNamespaceInput_copies_fields
    [of "\<lparr>Spec = \<lparr>ForProvider = \<lparr>Region = ''us-east-1'', CreatorRequestID = Some ''req'',
         Description = None, Name = Some ''ns'',
         Tags = Some [\<lparr>Key = Some ''k'', Value = None\<rparr>, \<lparr>Key = None, Value = Some ''v''\<rparr>]\<rparr>\<rparr>\<rparr>"]
  by auto

text \<open>
  C8, as stated, fails: two resources whose specs differ in every field get the same
  update input, and none of its fields is set.
\<close>

theorem GenerateUpdateHttpNamespaceInput_ignores_spec:
  "GenerateUpdateHttpNamespaceInput
     \<lparr>Spec = \<lparr>ForProvider = \<lparr>Region = ''us-east-1'', CreatorRequestID = Some ''r1'',
        Description = Some ''first'', Name = Some ''a'',
        Tags = Some [\<lparr>Key = Some ''k'', Value = Some ''v''\<rparr>]\<rparr>\<rparr>\<rparr>
   = GenerateUpdateHttpNamespaceInput
     \<lparr>Spec = \<lparr>ForProvider = \<lparr>Region = ''eu-west-1'', CreatorRequestID = None,
        Description = Some ''second'', Name = Some ''b'', Tags = None\<rparr>\<rparr>\<rparr> \<and>
   upNamespace (GenerateUpdateHttpNamespaceInput
     \<lparr>Spec = \<lparr>ForProvider = \<lparr>Region = ''us-east-1'', CreatorRequestID = Some ''r1'',
        Description = Some ''first'', Name = Some ''a'',
        Tags = Some [\<lparr>Key = Some ''k'', Value = Some ''v''\<rparr>]\<rparr>\<rparr>\<rparr>) = None \<and>
   Description (ForProvider (Spec
     \<lparr>Spec = \<lparr>ForProvider = \<lparr>Region = ''us-east-1'', CreatorRequestID = Some ''r1'',
        Description = Some ''first'', Name = Some ''a'',
        Tags = Some [\<lparr>Key = Some ''k'', Value = Some ''v''\<rparr>]\<rparr>\<rparr>\<rparr>)) = Some ''first''"
  by (simp add: GenerateUpdateHttpNamespaceInput_def emptyUpdateHttpNamespaceInput_def)

text \<open>
  C8, amended. For every HTTPNamespace resource the update input is the empty input:
  Id, Namespace and UpdaterRequestId are all unset, whatever spec.forProvider holds.
\<close>

theorem GenerateUpdateHttpNamespaceInput_empty:
  "upId (GenerateUpdateHttpNamespaceInput cr) = None \<and>
   upNamespace (GenerateUpdateHttpNamespaceInput cr) = None \<and>
   upUpdaterRequestId (GenerateUpdateHttpNamespaceInput cr) = None"
  by (simp add: GenerateUpdateHttpNamespaceInput_def emptyUpdateHttpNamespaceInput_def)

theorem GenerateUpdateHttpNamespaceInput_empty_witness:
  "upId (GenerateUpdateHttpNamespaceInput
     \<lparr>Spec = \<lparr>ForProvider = \<lparr>Region = ''eu-west-1'', CreatorRequestID = None,
        Description = Some ''second'', Name = Some ''b'', Tags = None\<rparr>\<rparr>\<rparr>) = None \<and>
   upNamespace (GenerateUpdateHttpNamespaceInput
     \<lparr>Spec = \<lparr>ForProvider = \<lparr>Region = ''eu-west-1'', CreatorRequestID = None,
        Description = Some ''second'', Name = Some ''b'', Tags = None\<rparr>\<rparr>\<rparr>) = None"
  using GenerateUpdateHttpNamespaceInput_empty
    [of "\<lparr>Spec = \<lparr>ForProvider = \<lparr>Region = ''eu-west-1'', CreatorRequestID = None,
        Description = Some ''second'', Name = Some ''b'', Tags = None\<rparr>\<rparr>\<rparr>"]
  by simp

text \<open>
  C10. IsNotFound holds exactly of an error that implements awserr.Error with the code
  "UNKNOWN". It is false of the nil error, of an error of another type, and of an AWS
  error with any of the not-found codes of the servicediscovery API.
\<close>

theorem IsNotFound_only_UNKNOWN:
  "(IsNotFound err \<longleftrightarrow> (\<exists>m. err = Some (AwsErr ''UNKNOWN'' m))) \<and>
   \<not> IsNotFound None \<and>
   \<not> IsNotFound (Some (OtherErr msg)) \<and>
   \<not> IsNotFound (Some (AwsErr ErrCodeNamespaceNotFound m1)) \<and>
   \<not> IsNotFound (Some (AwsErr ErrCodeServiceNotFound m2)) \<and>
   \<not> IsNotFound (Some (AwsErr ErrCodeInstanceNotFound m3)) \<and>
   \<not> IsNotFound (Some (AwsErr ErrCodeOperationNotFound m4)) \<and>
   \<not> IsNotFound (Some (AwsErr ErrCodeResourceNotFoundException m5))"
proof -
  have "IsNotFound err \<longleftrightarrow> (\<exists>m. err = Some (AwsErr ''UNKNOWN'' m))"
  proof (cases err)
    case None
    then show ?thesis by (simp add: IsNotFound_def)
  next
    case (Some e)
    then show ?thesis by (cases e) (auto simp: IsNotFound_def)
  qed
  then show ?thesis
    by (simp add: IsNotFound_def ErrCodeNamespaceNotFound_def ErrCodeServiceNotFound_def
        ErrCodeInstanceNotFound_def ErrCodeOperationNotFound_def
        ErrCodeResourceNotFoundException_def)
qed

theorem IsNotFound_only_UNKNOWN_witness:
  "IsNotFound (Some (AwsErr ''UNKNOWN'' ''unknown error'')) \<and>
   \<not> IsNotFound (Some (AwsErr ErrCodeNamespaceNotFound ''no such namespace''))"
  using IsNotFound_only_UNKNOWN
    [of "Some (AwsErr ''UNKNOWN'' ''unknown error'')" "''x''" "''no such namespace''"]
  by simp

section \<open>Lemmas on the IntegrationResponse hooks\<close>

lemma setLoop_fst:
  "fst (setLoop new cs ex) =
     map (\<lambda>e. if cType e = cType new \<and> \<not> Equal e new then new else e) cs"
  by (induction cs arbitrary: ex) (simp_all add: split_beta)

lemma setLoop_snd:
  "snd (setLoop new cs ex) \<longleftrightarrow> ex \<or> (\<exists>e \<in> set cs. cType e = cType new)"
  by (induction cs arbitrary: ex) (auto simp: split_beta)

lemma setOne_eq:
  "setOne cs new =
     (if \<exists>e \<in> set cs. cType e = cType new
      then map (\<lambda>e. if cType e = cType new \<and> \<not> Equal e new then new else e) cs
      else cs @ [new])"
proof -
  have "setOne cs new =
      (if snd (setLoop new cs False) then fst (setLoop new cs False)
       else fst (setLoop new cs False) @ [new])"
    by (simp add: setOne_def split_beta)
  also have "\<dots> =
      (if \<exists>e \<in> set cs. cType e = cType new
       then map (\<lambda>e. if cType e = cType new \<and> \<not> Equal e new then new else e) cs
       else map (\<lambda>e. if cType e = cType new \<and> \<not> Equal e new then new else e) cs @ [new])"
    by (simp add: setLoop_fst setLoop_snd)
  also have "\<dots> =
      (if \<exists>e \<in> set cs. cType e = cType new
       then map (\<lambda>e. if cType e = cType new \<and> \<not> Equal e new then new else e) cs
       else cs @ [new])"
    by (auto intro: map_idI)
  finally show ?thesis .
qed

lemma Equal_refl: "Equal c c"
  by (simp add: Equal_def)

lemma setOne_has_type: "\<exists>c \<in> set (setOne cs new). cType c = cType new"
  by (auto simp: setOne_eq)

lemma setOne_same_type_Equal:
  "c \<in> set (setOne cs new) \<Longrightarrow> cType c = cType new \<Longrightarrow> Equal c new"
  by (auto simp: setOne_eq Equal_refl split: if_splits)

lemma setOne_other_types:
  "filter (\<lambda>c. cType c \<noteq> cType new) (setOne cs new) = filter (\<lambda>c. cType c \<noteq> cType new) cs"
proof (cases "\<exists>e \<in> set cs. cType e = cType new")
  case True
  have "filter (\<lambda>c. cType c \<noteq> cType new)
          (map (\<lambda>e. if cType e = cType new \<and> \<not> Equal e new then new else e) xs)
        = filter (\<lambda>c. cType c \<noteq> cType new) xs" for xs
    by (induction xs) auto
  with True show ?thesis by (simp add: setOne_eq)
next
  case False
  then show ?thesis by (simp add: setOne_eq)
qed

lemma SetConditions_single: "SetConditions cs [new] = setOne cs new"
  by (simp add: SetConditions_def)

text \<open>
  C5. The three pre-hooks return the nil error and write ApiId and IntegrationId of the
  SDK input from spec.forProvider. preObserve and preDelete also write
  IntegrationResponseId from the external-name annotation: a pointer to its value, and
  the nil pointer when the annotation is missing or empty; preDelete returns false for
  its first result. preCreate writes nothing else: the create input has no
  IntegrationResponseId, and its five other fields keep the values they had.
\<close>

theorem pre_hooks_set_ids:
  "snd (preObserve cr g) = None \<and>
   giApiId (fst (preObserve cr g)) = irAPIID (irForProvider cr) \<and>
   giIntegrationId (fst (preObserve cr g)) = irIntegrationID (irForProvider cr) \<and>
   giIntegrationResponseId (fst (preObserve cr g)) =
     (case irAnnotations cr AnnotationKeyExternalName of
        None \<Rightarrow> None
      | Some v \<Rightarrow> if v = [] then None else Some v) \<and>
   snd (preCreate cr c) = None \<and>
   fst (preCreate cr c) =
     c\<lparr>ciApiId := irAPIID (irForProvider cr), ciIntegrationId := irIntegrationID (irForProvider cr)\<rparr> \<and>
   ciContentHandlingStrategy (fst (preCreate cr c)) = ciContentHandlingStrategy c \<and>
   ciIntegrationResponseKey (fst (preCreate cr c)) = ciIntegrationResponseKey c \<and>
   ciResponseParameters (fst (preCreate cr c)) = ciResponseParameters c \<and>
   ciResponseTemplates (fst (preCreate cr c)) = ciResponseTemplates c \<and>
   ciTemplateSelectionExpression (fst (preCreate cr c)) = ciTemplateSelectionExpression c \<and>
   snd (preDelete cr d) = (False, None) \<and>
   diApiId (fst (preDelete cr d)) = irAPIID (irForProvider cr) \<and>
   diIntegrationId (fst (preDelete cr d)) = irIntegrationID (irForProvider cr) \<and>
   diIntegrationResponseId (fst (preDelete cr d)) =
     (case irAnnotations cr AnnotationKeyExternalName of
        None \<Rightarrow> None
      | Some v \<Rightarrow> if v = [] then None else Some v)"
  by (simp add: preObserve_def preCreate_def preDelete_def Let_def aws_String_def
      GetExternalName_def split: option.splits)

text \<open>
  C6. With a non-nil error, postObserve and postCreate return that error with the zero
  observation or creation and leave the resource as it was. With the nil error,
  postObserve returns the observation and the nil error and changes only the conditions
  of the resource: afterwards there is a condition of type Ready, every condition of type
  Ready equals Available (true, reason Available; the transition time apart), and the
  conditions of other types are the ones from before, in their order. postCreate returns
  the creation and the nil error and changes only the annotations: the external-name key
  now maps to the IntegrationResponseId of the response (the empty string when that is
  nil).
\<close>

theorem post_hooks_results:
  "postObserve now cr resp obs (Some e) = (cr, zeroExternalObservation, Some e) \<and>
   postCreate cr cresp cre (Some e) = (cr, zeroExternalCreation, Some e) \<and>
   snd (postObserve now cr resp obs None) = (obs, None) \<and>
   fst (postObserve now cr resp obs None) =
     cr\<lparr>irConditions := irConditions (fst (postObserve now cr resp obs None))\<rparr> \<and>
   (\<exists>c \<in> set (irConditions (fst (postObserve now cr resp obs None))). cType c = TypeReady) \<and>
   (\<forall>c \<in> set (irConditions (fst (postObserve now cr resp obs None))).
      cType c = TypeReady \<longrightarrow>
      cStatus c = ConditionTrue \<and> cReason c = ReasonAvailable \<and> cMessage c = []) \<and>
   filter (\<lambda>c. cType c \<noteq> TypeReady) (irConditions (fst (postObserve now cr resp obs None)))
     = filter (\<lambda>c. cType c \<noteq> TypeReady) (irConditions cr) \<and>
   snd (postCreate cr cresp cre None) = (cre, None) \<and>
   fst (postCreate cr cresp cre None) =
     cr\<lparr>irAnnotations := (irAnnotations cr)(AnnotationKeyExternalName \<mapsto>
          (case coIntegrationResponseId cresp of None \<Rightarrow> [] | Some v \<Rightarrow> v))\<rparr>"
proof -
  let ?cs = "irConditions (fst (postObserve now cr resp obs None))"
  have cs: "?cs = setOne (irConditions cr) (Available now)"
    by (simp add: postObserve_def SetConditions_single)
  have ty: "cType (Available now) = TypeReady"
    by (simp add: Available_def)
  have ex: "\<exists>c \<in> set ?cs. cType c = TypeReady"
    using setOne_has_type [of "irConditions cr" "Available now"] by (simp add: cs ty)
  have all: "\<forall>c \<in> set ?cs. cType c = TypeReady \<longrightarrow>
      cStatus c = ConditionTrue \<and> cReason c = ReasonAvailable \<and> cMessage c = []"
  proof (intro ballI impI)
    fix c assume "c \<in> set ?cs" "cType c = TypeReady"
    then have "Equal c (Available now)"
      using setOne_same_type_Equal [of c "irConditions cr" "Available now"] by (simp add: cs ty)
    then show "cStatus c = ConditionTrue \<and> cReason c = ReasonAvailable \<and> cMessage c = []"
      by (simp add: Equal_def Available_def)
  qed
  have others: "filter (\<lambda>c. cType c \<noteq> TypeReady) ?cs
      = filter (\<lambda>c. cType c \<noteq> TypeReady) (irConditions cr)"
    using setOne_other_types [of "Available now" "irConditions cr"] by (simp add: cs ty)
  have rest: "postObserve now cr resp obs (Some e) = (cr, zeroExternalObservation, Some e)"
    "postCreate cr cresp cre (Some e) = (cr, zeroExternalCreation, Some e)"
    "snd (postObserve now cr resp obs None) = (obs, None)"
    "fst (postObserve now cr resp obs None) = cr\<lparr>irConditions := ?cs\<rparr>"
    "snd (postCreate cr cresp cre None) = (cre, None)"
    "fst (postCreate cr cresp cre None) =
       cr\<lparr>irAnnotations := (irAnnotations cr)(AnnotationKeyExternalName \<mapsto>
          (case coIntegrationResponseId cresp of None \<Rightarrow> [] | Some v \<Rightarrow> v))\<rparr>"
    by (simp_all add: postObserve_def postCreate_def SetExternalName_def aws_StringValue_def)
  from ex all others rest show ?thesis by blast
qed

theorem pre_hooks_set_ids_witness:
  "giApiId (fst (preObserve exIntegrationResponse exGetInput)) = Some ''api-1'' \<and>
   giIntegrationId (fst (preObserve exIntegrationResponse exGetInput)) = Some ''int-1'' \<and>
   giIntegrationResponseId (fst (preObserve exIntegrationResponse exGetInput)) = Some ''resp-1'' \<and>
   snd (preObserve exIntegrationResponse exGetInput) = None \<and>
   ciApiId (fst (preCreate exIntegrationResponse exCreateInput)) = Some ''api-1'' \<and>
   ciIntegrationId (fst (preCreate exIntegrationResponse exCreateInput)) = Some ''int-1'' \<and>
   ciContentHandlingStrategy (fst (preCreate exIntegrationResponse exCreateInput))
     = Some ''CONVERT_TO_TEXT'' \<and>
   diIntegrationResponseId (fst (preDelete exIntegrationResponse exDeleteInput)) = Some ''resp-1'' \<and>
   snd (preDelete exIntegrationResponse exDeleteInput) = (False, None)"
  using pre_hooks_set_ids [of exIntegrationResponse exGetInput exCreateInput exDeleteInput]
  by (simp add: exIntegrationResponse_def exCreateInput_def)

text \<open>
  A resource without the external-name annotation, or with an empty one: the hooks leave
  IntegrationResponseId nil.
\<close>

lemma pre_hooks_without_external_name:
  "giIntegrationResponseId
     (fst (preObserve (exIntegrationResponse\<lparr>irAnnotations := Map.empty\<rparr>) exGetInput)) = None"
  "diIntegrationResponseId
     (fst (preDelete (exIntegrationResponse\<lparr>irAnnotations := Map.empty\<rparr>) exDeleteInput)) = None"
  "giIntegrationResponseId
     (fst (preObserve
        (exIntegrationResponse\<lparr>irAnnotations := [AnnotationKeyExternalName \<mapsto> []]\<rparr>)
        exGetInput)) = None"
  by (simp_all add: preObserve_def preDelete_def Let_def aws_String_def GetExternalName_def)

theorem post_hooks_results_witness:
  "postObserve 7 exIntegrationResponse exGetOutput exObservation (Some (OtherErr ''boom''))
     = (exIntegrationResponse, zeroExternalObservation, Some (OtherErr ''boom'')) \<and>
   snd (postObserve 7 exIntegrationResponse exGetOutput exObservation None)
     = (exObservation, None) \<and>
   irConditions (fst (postObserve 7 exIntegrationResponse exGetOutput exObservation None))
     = [Available 7,
        \<lparr>cType = ''Synced'', cStatus = ConditionTrue, cLastTransitionTime = 2,
         cReason = ''ReconcileSuccess'', cMessage = []\<rparr>] \<and>
   irAnnotations (fst (postCreate exIntegrationResponse exCreateOutput exCreation None))
     AnnotationKeyExternalName = Some ''resp-2'' \<and>
   snd (postCreate exIntegrationResponse exCreateOutput exCreation None) = (exCreation, None)"
  using post_hooks_results
    [of 7 exIntegrationResponse exGetOutput exObservation "OtherErr ''boom''"
        exCreateOutput exCreation]
  by (simp add: postObserve_def SetConditions_def setOne_def exIntegrationResponse_def
      Available_def Equal_def TypeReady_def ReasonAvailable_def exCreateOutput_def)

section \<open>Lemmas on the ResolverEndpoint CRD schema\<close>

lemma validates_Type: "validates s v \<Longrightarrow> Type t \<in> set s \<Longrightarrow> hasType t v"
  by (auto simp: validates_def)

lemma validates_Enum: "validates s v \<Longrightarrow> Enum vs \<in> set s \<Longrightarrow> v \<in> set vs"
  by (auto simp: validates_def)

lemma validates_Required:
  "validates s (JObject kvs) \<Longrightarrow> Required ks \<in> set s \<Longrightarrow> k \<in> set ks \<Longrightarrow> map_of kvs k \<noteq> None"
  by (auto simp: validates_def)

lemma validates_Properties:
  "validates s (JObject kvs) \<Longrightarrow> Properties ps \<in> set s \<Longrightarrow> (k, p) \<in> set ps \<Longrightarrow>
   map_of kvs k = Some x \<Longrightarrow> validates p x"
  by (fastforce simp: validates_def)

lemma hasType_TObject: "hasType TObject v \<Longrightarrow> \<exists>kvs. v = JObject kvs"
  by (cases v) auto


declare Defaulting.simps [simp del]

lemma Defaulting_JObject:
  "Defaulting s (JObject kvs) =
     JObject (map (\<lambda>kv.
              case map_of (properties s) (fst kv) of
                Some prop \<Rightarrow> (fst kv, Defaulting prop (snd kv))
              | None \<Rightarrow>
                  (case additionalOf s of
                     Some a \<Rightarrow> (fst kv, Defaulting a (snd kv))
                   | None \<Rightarrow> kv))
            (applyDefaults (properties s) kvs))"
  by (subst Defaulting.simps) simp

lemma Defaulting_JString: "Defaulting s (JString x) = JString x"
  by (subst Defaulting.simps) simp

lemma Defaulting_is_JObject: "Defaulting s x = JObject kvs' \<Longrightarrow> \<exists>kvs. x = JObject kvs"
  by (subst (asm) Defaulting.simps) (auto split: json.splits option.splits)

lemma map_of_map_values:
  "map_of (map (\<lambda>kv. (fst kv, f (fst kv) (snd kv))) xs) k = map_option (f k) (map_of xs k)"
  by (induction xs) auto

lemma field_Defaulting:
  "field (Defaulting s (JObject kvs)) k =
     map_option
       (\<lambda>v. case map_of (properties s) k of
               Some prop \<Rightarrow> Defaulting prop v
             | None \<Rightarrow> (case additionalOf s of Some a \<Rightarrow> Defaulting a v | None \<Rightarrow> v))
       (map_of (applyDefaults (properties s) kvs) k)"
proof -
  have eq: "(\<lambda>kv.
              case map_of (properties s) (fst kv) of
                Some prop \<Rightarrow> (fst kv, Defaulting prop (snd kv))
              | None \<Rightarrow>
                  (case additionalOf s of
                     Some a \<Rightarrow> (fst kv, Defaulting a (snd kv))
                   | None \<Rightarrow> kv))
      = (\<lambda>kv. (fst kv,
            (\<lambda>k v. case map_of (properties s) k of
               Some prop \<Rightarrow> Defaulting prop v
             | None \<Rightarrow> (case additionalOf s of Some a \<Rightarrow> Defaulting a v | None \<Rightarrow> v))
            (fst kv) (snd kv)))"
    by (auto simp: fun_eq_iff split: option.splits)
  show ?thesis
    unfolding Defaulting_JObject field_def json.case eq
    by (rule map_of_map_values)
qed

lemma map_of_setKey: "map_of (setKey x k d) k' = (if k' = k then Some d else map_of x k')"
  by (induction x) auto

lemma map_of_applyDefaults:
  "distinct (map fst ps) \<Longrightarrow>
   map_of (applyDefaults ps x) k =
     (case map_of ps k of
        None \<Rightarrow> map_of x k
      | Some prop \<Rightarrow>
          (case defaultOf prop of
             None \<Rightarrow> map_of x k
           | Some d \<Rightarrow>
               (case map_of x k of
                  None \<Rightarrow> Some d
                | Some v \<Rightarrow> if isNull v then Some d else Some v)))"
proof (induction ps arbitrary: x)
  case Nil
  then show ?case by simp
next
  case (Cons p ps)
  obtain k0 pr where p: "p = (k0, pr)" by (cases p)
  from Cons.prems have d: "distinct (map fst ps)" and k0: "k0 \<notin> fst ` set ps"
    by (auto simp: p)
  from k0 have none: "map_of ps k0 = None"
    by (simp add: map_of_eq_None_iff)
  show ?case
    using Cons.IH [OF d] none
    by (auto simp: p map_of_setKey split: option.splits)
qed

lemma validated_field_object:
  assumes "validates s v" "Type TObject \<in> set s" "Required ks \<in> set s" "k \<in> set ks"
    "Properties ps \<in> set s" "(k, p) \<in> set ps"
  shows "\<exists>x. field v k = Some x \<and> validates p x"
proof -
  from assms(1,2) obtain kvs where v: "v = JObject kvs"
    using validates_Type hasType_TObject by blast
  with assms(1,3,4) obtain x where x: "map_of kvs k = Some x"
    using validates_Required by blast
  with assms(1,5,6) v have "validates p x"
    using validates_Properties by blast
  with x v show ?thesis by (simp add: field_def)
qed

text \<open>
  C9. Every object that the openAPIV3Schema of the ResolverEndpoint CRD accepts has
  spec.forProvider.direction, spec.forProvider.ipAddresses and spec.forProvider.region;
  its spec.deletionPolicy is omitted, "Orphan" or "Delete"; and after defaulting its
  spec.deletionPolicy is "Delete" when it was omitted and the given value otherwise.
\<close>

theorem admitted_object:
  assumes "validates openAPIV3Schema obj"
  shows "fieldAt obj [''spec'', ''forProvider'', ''direction''] \<noteq> None \<and>
         fieldAt obj [''spec'', ''forProvider'', ''ipAddresses''] \<noteq> None \<and>
         fieldAt obj [''spec'', ''forProvider'', ''region''] \<noteq> None \<and>
         fieldAt obj [''spec'', ''deletionPolicy'']
           \<in> {None, Some (JString ''Orphan''), Some (JString ''Delete'')} \<and>
         fieldAt (Defaulting openAPIV3Schema obj) [''spec'', ''deletionPolicy'']
           = (case fieldAt obj [''spec'', ''deletionPolicy''] of
                None \<Rightarrow> Some (JString ''Delete'')
              | Some v \<Rightarrow> Some v)"
proof -
  obtain sp where sp: "field obj ''spec'' = Some sp" and vsp: "validates specSchema sp"
    using validated_field_object [OF assms, of "[''spec'']" "''spec''" _ specSchema]
    by (auto simp: openAPIV3Schema_def)
  obtain fp where fp: "field sp ''forProvider'' = Some fp" and vfp: "validates forProviderSchema fp"
    using validated_field_object [OF vsp, of "[''forProvider'']" "''forProvider''" _ forProviderSchema]
    by (auto simp: specSchema_def)
  from vfp obtain fkvs where fkvs: "fp = JObject fkvs"
    using validates_Type [of forProviderSchema fp TObject] hasType_TObject
    by (auto simp: forProviderSchema_def)
  have req: "map_of fkvs k \<noteq> None" if "k \<in> set [''direction'', ''ipAddresses'', ''region'']" for k
    using validates_Required [OF vfp [unfolded fkvs] _ that] by (simp add: forProviderSchema_def)
  from vsp obtain skvs where skvs: "sp = JObject skvs"
    using validates_Type [of specSchema sp TObject] hasType_TObject
    by (auto simp: specSchema_def)
  from sp obtain top where top: "obj = JObject top"
    by (cases obj) (auto simp: field_def)
  have dp: "map_of skvs ''deletionPolicy'' \<in> {None, Some (JString ''Orphan''), Some (JString ''Delete'')}"
  proof (cases "map_of skvs ''deletionPolicy''")
    case None
    then show ?thesis by simp
  next
    case (Some v)
    have "validates deletionPolicySchema v"
      using validates_Properties [OF vsp [unfolded skvs] _ _ Some, of _ deletionPolicySchema]
      by (simp add: specSchema_def)
    then have "v \<in> set [JString ''Orphan'', JString ''Delete'']"
      by (rule validates_Enum) (simp add: deletionPolicySchema_def)
    with Some show ?thesis by auto
  qed
  have F: "fieldAt obj [''spec'', ''forProvider'', k] = map_of fkvs k" for k
  proof -
    have "fieldAt obj [''spec'', ''forProvider'', k] = fieldAt sp [''forProvider'', k]"
      by (simp add: sp)
    also have "\<dots> = fieldAt fp [k]"
      by (simp add: fp)
    also have "\<dots> = map_of fkvs k"
      by (simp add: fkvs field_def split: option.splits)
    finally show ?thesis .
  qed
  have A: "fieldAt obj [''spec'', ''forProvider'', ''direction''] \<noteq> None"
    "fieldAt obj [''spec'', ''forProvider'', ''ipAddresses''] \<noteq> None"
    "fieldAt obj [''spec'', ''forProvider'', ''region''] \<noteq> None"
    unfolding F
    using req [of "''direction''"] req [of "''ipAddresses''"] req [of "''region''"]
    by simp_all
  have B: "fieldAt obj [''spec'', ''deletionPolicy''] = map_of skvs ''deletionPolicy''"
  proof -
    have "fieldAt obj [''spec'', ''deletionPolicy''] = fieldAt sp [''deletionPolicy'']"
      by (simp add: sp)
    also have "\<dots> = map_of skvs ''deletionPolicy''"
      by (simp add: skvs field_def split: option.splits)
    finally show ?thesis .
  qed
  have top_sp: "map_of top ''spec'' = Some (JObject skvs)"
    using sp by (simp add: top skvs field_def)
  have D1: "field (Defaulting openAPIV3Schema obj) ''spec'' = Some (Defaulting specSchema (JObject skvs))"
  proof -
    have P: "properties openAPIV3Schema =
        [(''apiVersion'', [Type TString]), (''kind'', [Type TString]),
         (''metadata'', [Type TObject]), (''spec'', specSchema), (''status'', statusSchema)]"
      by (simp add: openAPIV3Schema_def)
    have dist: "distinct (map fst (properties openAPIV3Schema))"
      by (simp add: P)
    have M: "map_of (properties openAPIV3Schema) ''spec'' = Some specSchema"
      by (simp add: P)
    have dflt: "defaultOf specSchema = None"
      by (simp add: specSchema_def)
    show ?thesis
      unfolding top field_Defaulting map_of_applyDefaults [OF dist]
      by (simp add: M dflt top_sp)
  qed
  have D2: "field (Defaulting specSchema (JObject skvs)) ''deletionPolicy''
      = (case map_of skvs ''deletionPolicy'' of
           None \<Rightarrow> Some (JString ''Delete'')
         | Some v \<Rightarrow> Some v)"
  proof -
    have P: "map fst (properties specSchema) =
        [''deletionPolicy'', ''forProvider'', ''providerConfigRef'', ''providerRef'',
         ''writeConnectionSecretToRef'']"
      by (simp add: specSchema_def)
    have dist: "distinct (map fst (properties specSchema))"
      unfolding P by simp
    have M: "map_of (properties specSchema) ''deletionPolicy'' = Some deletionPolicySchema"
      by (simp add: specSchema_def)
    have dflt: "defaultOf deletionPolicySchema = Some (JString ''Delete'')"
      by (simp add: deletionPolicySchema_def)
    have "field (Defaulting specSchema (JObject skvs)) ''deletionPolicy''
        = map_option (Defaulting deletionPolicySchema)
            (case map_of skvs ''deletionPolicy'' of
               None \<Rightarrow> Some (JString ''Delete'')
             | Some v \<Rightarrow> if isNull v then Some (JString ''Delete'') else Some v)"
      unfolding field_Defaulting map_of_applyDefaults [OF dist]
      by (simp add: M dflt)
    with dp show ?thesis
      by (auto simp: isNull_def Defaulting_JString)
  qed
  have C: "fieldAt (Defaulting openAPIV3Schema obj) [''spec'', ''deletionPolicy'']
      = (case fieldAt obj [''spec'', ''deletionPolicy''] of
           None \<Rightarrow> Some (JString ''Delete'')
         | Some v \<Rightarrow> Some v)"
  proof -
    have "fieldAt (Defaulting openAPIV3Schema obj) [''spec'', ''deletionPolicy'']
        = fieldAt (Defaulting specSchema (JObject skvs)) [''deletionPolicy'']"
      by (simp add: D1)
    also have "\<dots> = (case map_of skvs ''deletionPolicy'' of
           None \<Rightarrow> Some (JString ''Delete'')
         | Some v \<Rightarrow> Some v)"
      by (simp add: D2 split: option.splits)
    finally show ?thesis unfolding B .
  qed
  from dp have dp': "fieldAt obj [''spec'', ''deletionPolicy'']
      \<in> {None, Some (JString ''Orphan''), Some (JString ''Delete'')}"
    unfolding B .
  from A dp' C show ?thesis by blast
qed

theorem admitted_object_witness:
  "validates openAPIV3Schema exResolverEndpoint \<and>
   fieldAt exResolverEndpoint [''spec'', ''forProvider'', ''region''] = Some (JString ''us-east-1'') \<and>
   fieldAt exResolverEndpoint [''spec'', ''deletionPolicy''] = None \<and>
   fieldAt (Defaulting openAPIV3Schema exResolverEndpoint) [''spec'', ''deletionPolicy'']
     = Some (JString ''Delete'')"
proof -
  have v: "validates openAPIV3Schema exResolverEndpoint"
    by code_simp
  have r: "fieldAt exResolverEndpoint [''spec'', ''forProvider'', ''region'']
      = Some (JString ''us-east-1'')"
    by code_simp
  have n: "fieldAt exResolverEndpoint [''spec'', ''deletionPolicy''] = None"
    by code_simp
  from admitted_object [OF v] have
    "fieldAt (Defaulting openAPIV3Schema exResolverEndpoint) [''spec'', ''deletionPolicy'']
       = Some (JString ''Delete'')"
    unfolding n by simp
  with v r n show ?thesis by blast
qed

lemma rejected_objects:
  "\<not> validates openAPIV3Schema exRetainEndpoint"
  "\<not> validates openAPIV3Schema exNoRegionEndpoint"
  "\<not> validates openAPIV3Schema (JObject [(''kind'', JString ''ResolverEndpoint'')])"
  by code_simp+

section \<open>Lemmas on the cache controller\<close>

lemma GetCondition_SetCondition_same:
  "GetCondition (dcType new) (SetCondition new cs) = Some new"
  by (induction cs) simp_all

lemma GetCondition_SetCondition_other:
  "t \<noteq> dcType new \<Longrightarrow> GetCondition t (SetCondition new cs) = GetCondition t cs"
  by (induction cs) simp_all

lemma filter_SetCondition_other:
  "filter (\<lambda>c. dcType c \<noteq> dcType new) (SetCondition new cs)
     = filter (\<lambda>c. dcType c \<noteq> dcType new) cs"
  by (induction cs) simp_all

lemma withConditions_parts:
  "rgMeta (withConditions f g) = rgMeta g"
  "rgSpec (withConditions f g) = rgSpec g"
  "Conditions (rgStatus (withConditions f g)) = f (Conditions (rgStatus g))"
  "State (rgStatus (withConditions f g)) = State (rgStatus g)"
  "GroupName (rgStatus (withConditions f g)) = GroupName (rgStatus g)"
  by (simp_all add: withConditions_def)

lemma anyFailed_simps:
  "anyFailed [] = False"
  "anyFailed (c # cs) = (\<not> snd c \<or> anyFailed cs)"
  "anyFailed (cs @ ds) = (anyFailed cs \<or> anyFailed ds)"
  by (auto simp: anyFailed_def)

lemma describeCacheClusters_failed:
  "describeCacheClusters client cids = (res, calls) \<Longrightarrow> anyFailed calls \<longleftrightarrow> isl res"
proof (induction cids arbitrary: res calls)
  case Nil
  then show ?case by (auto simp: anyFailed_simps)
next
  case (Cons cid cids)
  show ?case
  proof (cases "MockDescribeCacheClustersRequest client cid")
    case (Inl err)
    with Cons.prems show ?thesis by (auto simp: anyFailed_simps)
  next
    case (Inr ccs)
    obtain res' calls' where rest: "describeCacheClusters client cids = (res', calls')"
      by (cases "describeCacheClusters client cids")
    from Cons.IH [OF rest] Cons.prems Inr rest show ?thesis
      by (cases res') (auto simp: anyFailed_simps)
  qed
qed

declare toHex.simps [simp del]

lemma fnv64a_test_uid: "fnv64a ''definitely-a-uuid'' = 0xefdd8494195d7940"
  by code_simp

lemma toHex_test_sum: "toHex 0xefdd8494195d7940 = ''efdd8494195d7940''"
  by (simp add: toHex.simps hexDigit_def)

text \<open>
  The test file's constant \<^verbatim>\<open>id\<close>: for the UID of the fixtures, the name is the prefix
  followed by \<^verbatim>\<open>-efdd8494195d7940\<close>.
\<close>

lemma NewReplicationGroupID_test_uid:
  "NewReplicationGroupID K replicationGroup = NamePrefix K @ ''-efdd8494195d7940''"
  by (simp add: NewReplicationGroupID_def replicationGroup_def fnv64a_test_uid toHex_test_sum)

text \<open>
  C1. Sync requeues whenever one of its requests failed. When DescribeReplicationGroups
  fails, State stays as it was. When it succeeds, State is the reported status; and if no
  request failed, Sync requeues for a group that is creating or modifying and does not
  requeue for one that is deleting or available, whether or not ModifyReplicationGroup
  was among the requests.
\<close>

theorem Sync_state_and_requeue:
  assumes "Sync K needsUpdate client g = (g', requeue, calls)"
  shows "(anyFailed calls \<longrightarrow> requeue) \<and>
         (case MockDescribeReplicationGroupsRequest client of
            Inl err \<Rightarrow> anyFailed calls \<and> State (rgStatus g') = State (rgStatus g)
          | Inr rg \<Rightarrow>
              State (rgStatus g') = aws_StringValue (awsStatus rg) \<and>
              (\<not> anyFailed calls \<longrightarrow>
                 (State (rgStatus g') = StatusCreating \<longrightarrow> requeue) \<and>
                 (State (rgStatus g') = StatusModifying \<longrightarrow> requeue) \<and>
                 (State (rgStatus g') = StatusDeleting \<longrightarrow> \<not> requeue) \<and>
                 (State (rgStatus g') = StatusAvailable \<longrightarrow> \<not> requeue)))"
proof (cases "MockDescribeReplicationGroupsRequest client")
  case (Inl err)
  with assms show ?thesis
    by (auto simp: Sync_def SetFailed_def withConditions_parts anyFailed_simps)
next
  case (Inr rg)
  obtain res ccalls where dcc: "describeCacheClusters client (awsMemberClusters rg) = (res, ccalls)"
    by (cases "describeCacheClusters client (awsMemberClusters rg)")
  have failed: "anyFailed ccalls \<longleftrightarrow> isl res"
    using describeCacheClusters_failed [OF dcc] .
  have distinct:
    "StatusCreating \<noteq> StatusDeleting" "StatusCreating \<noteq> StatusModifying"
    "StatusCreating \<noteq> StatusAvailable" "StatusDeleting \<noteq> StatusModifying"
    "StatusDeleting \<noteq> StatusAvailable" "StatusModifying \<noteq> StatusAvailable"
    by (simp_all add: StatusCreating_def StatusDeleting_def StatusModifying_def
        StatusAvailable_def)
  from assms Inr dcc failed distinct show ?thesis
    by (cases res)
      (auto simp: Sync_def Let_def SetFailed_def SetCreating_def SetDeleting_def SetReady_def
        UnsetAll_def withConditions_def anyFailed_simps
        split: if_splits option.splits)
qed

theorem Sync_state_and_requeue_witness:
  "Sync exDeps (\<lambda>g rg ccs. True) (mockClient (Inr (describedGroup StatusAvailable)))
       (withStatus (\<lambda>s. s\<lparr>GroupName := ''coolGroup''\<rparr>) replicationGroup)
     = (withStatus (\<lambda>s. s\<lparr>GroupName := ''coolGroup'', State := StatusAvailable,
            Conditions := [NewCondition Ready [] []], Endpoint := ''172.16.0.1'', Port := 6379,
            MemberClusters := [cacheClusterID]\<rparr>) replicationGroup,
        False,
        [(DescribeReplicationGroups, True), (DescribeCacheClusters cacheClusterID, True),
         (ModifyReplicationGroup, True)]) \<and>
   \<not> anyFailed [(DescribeReplicationGroups, True), (DescribeCacheClusters cacheClusterID, True),
         (ModifyReplicationGroup, True)] \<and>
   issued ModifyReplicationGroup
        [(DescribeReplicationGroups, True), (DescribeCacheClusters cacheClusterID, True),
         (ModifyReplicationGroup, True)] \<and>
   aws_StringValue (awsStatus (describedGroup StatusAvailable)) = StatusAvailable"
proof -
  let ?g = "withStatus (\<lambda>s. s\<lparr>GroupName := ''coolGroup''\<rparr>) replicationGroup"
  let ?c = "mockClient (Inr (describedGroup StatusAvailable))"
  let ?g' = "withStatus (\<lambda>s. s\<lparr>GroupName := ''coolGroup'', State := StatusAvailable,
            Conditions := [NewCondition Ready [] []], Endpoint := ''172.16.0.1'', Port := 6379,
            MemberClusters := [cacheClusterID]\<rparr>) replicationGroup"
  let ?calls = "[(DescribeReplicationGroups, True), (DescribeCacheClusters cacheClusterID, True),
         (ModifyReplicationGroup, True)]"
  have run: "Sync exDeps (\<lambda>g rg ccs. True) ?c ?g = (?g', False, ?calls)"
    by (simp add: Sync_def Let_def mockClient_def describedGroup_def withStatus_def
        replicationGroup_def aws_StringValue_def UnsetAll_def SetReady_def withConditions_def
        UnsetAllConditions_def NewCondition_def StatusAvailable_def StatusCreating_def
        StatusDeleting_def StatusModifying_def)
  have ok: "\<not> anyFailed ?calls"
    by (simp add: anyFailed_def)
  have st: "aws_StringValue (awsStatus (describedGroup StatusAvailable)) = StatusAvailable"
    by (simp add: describedGroup_def aws_StringValue_def)
  from Sync_state_and_requeue [OF run] ok
  have "State (rgStatus ?g') = aws_StringValue (awsStatus (describedGroup StatusAvailable))"
    by (simp add: mockClient_def)
  with run ok st show ?thesis by (simp add: issued_def)
qed

text \<open>The rows of \<^verbatim>\<open>TestSync\<close>, run on the model.\<close>

lemmas sync_eval =
  Sync_def Let_def mockClient_def describedGroup_def statusOnly_def withStatus_def
  replicationGroup_def aws_StringValue_def UnsetAll_def SetReady_def SetCreating_def
  SetDeleting_def SetFailed_def withConditions_def UnsetAllConditions_def NewCondition_def
  StatusAvailable_def StatusCreating_def StatusDeleting_def StatusModifying_def
  errorBoom_def Wrapf_def cacheClusterID_def

lemma TestSync_SuccessfulSyncWhileGroupCreating:
  "Sync K needsUpdate (mockClient (Inr (statusOnly StatusCreating)))
     (withStatus (\<lambda>s. s\<lparr>GroupName := ''coolGroup'',
        Conditions := [NewCondition Failed (reasonCreatingResource K) (Error errorBoom)]\<rparr>)
        replicationGroup)
   = (withStatus (\<lambda>s. s\<lparr>State := StatusCreating, GroupName := ''coolGroup'',
        Conditions :=
          [(NewCondition Failed (reasonCreatingResource K) (Error errorBoom))
             \<lparr>dcStatus := ConditionFalse\<rparr>,
           NewCondition Creating [] []]\<rparr>) replicationGroup,
      True, [(DescribeReplicationGroups, True)])"
  by (simp add: sync_eval)

lemma TestSync_SuccessfulSyncWhileGroupDeleting:
  "Sync K needsUpdate (mockClient (Inr (statusOnly StatusDeleting)))
     (withStatus (\<lambda>s. s\<lparr>GroupName := ''coolGroup'',
        Conditions := [NewCondition Deleting [] []]\<rparr>) replicationGroup)
   = (withStatus (\<lambda>s. s\<lparr>GroupName := ''coolGroup'', State := StatusDeleting,
        Conditions := [NewCondition Deleting [] []]\<rparr>) replicationGroup,
      False, [(DescribeReplicationGroups, True)])"
  by (simp add: sync_eval)

lemma TestSync_SuccessfulSyncWhileGroupModifying:
  "Sync K needsUpdate (mockClient (Inr (statusOnly StatusModifying)))
     (withStatus (\<lambda>s. s\<lparr>GroupName := ''coolGroup'',
        Conditions := [NewCondition Ready [] []]\<rparr>) replicationGroup)
   = (withStatus (\<lambda>s. s\<lparr>State := StatusModifying, GroupName := ''coolGroup'',
        Conditions := [(NewCondition Ready [] [])\<lparr>dcStatus := ConditionFalse\<rparr>]\<rparr>)
        replicationGroup,
      True, [(DescribeReplicationGroups, True)])"
  by (simp add: sync_eval)

lemma TestSync_SuccessfulSyncWhileGroupAvailableAndDoesNotNeedUpdate:
  "Sync K (\<lambda>g rg ccs. False) (mockClient (Inr (describedGroup StatusAvailable)))
     (withStatus (\<lambda>s. s\<lparr>GroupName := ''coolGroup'',
        Conditions := [NewCondition Creating [] []]\<rparr>) replicationGroup)
   = (withStatus (\<lambda>s. s\<lparr>State := StatusAvailable, GroupName := ''coolGroup'',
        Conditions :=
          [(NewCondition Creating [] [])\<lparr>dcStatus := ConditionFalse\<rparr>,
           NewCondition Ready [] []],
        Port := 6379, Endpoint := ''172.16.0.1'', MemberClusters := [cacheClusterID]\<rparr>)
        replicationGroup,
      False,
      [(DescribeReplicationGroups, True), (DescribeCacheClusters cacheClusterID, True)])"
  by (simp add: sync_eval)

lemma TestSync_SuccessfulSyncWhileGroupAvailableAndNeedsUpdate:
  "Sync K (\<lambda>g rg ccs. True) (mockClient (Inr (describedGroup StatusAvailable)))
     (withStatus (\<lambda>s. s\<lparr>GroupName := ''coolGroup'',
        Conditions := [NewCondition Creating [] []]\<rparr>) replicationGroup)
   = (withStatus (\<lambda>s. s\<lparr>State := StatusAvailable, GroupName := ''coolGroup'',
        Conditions :=
          [(NewCondition Creating [] [])\<lparr>dcStatus := ConditionFalse\<rparr>,
           NewCondition Ready [] []],
        Port := 6379, Endpoint := ''172.16.0.1'', MemberClusters := [cacheClusterID]\<rparr>)
        replicationGroup,
      False,
      [(DescribeReplicationGroups, True), (DescribeCacheClusters cacheClusterID, True),
       (ModifyReplicationGroup, True)])"
  by (simp add: sync_eval)

lemma TestSync_SuccessfulSyncWhileGroupAvailableAndCacheClustersNeedUpdate:
  "Sync K (\<lambda>g rg ccs. True)
     ((mockClient (Inr (describedGroup StatusAvailable)))
        \<lparr>MockDescribeCacheClustersRequest :=
           (\<lambda>cid. Inr [\<lparr>ccEngineVersion = Some ''5.0.0'',
                          ccPreferredMaintenanceWindow = Some ''never!''\<rparr>])\<rparr>)
     (withStatus (\<lambda>s. s\<lparr>GroupName := ''coolGroup'',
        Conditions := [NewCondition Creating [] []]\<rparr>) replicationGroup)
   = (withStatus (\<lambda>s. s\<lparr>State := StatusAvailable, GroupName := ''coolGroup'',
        Conditions :=
          [(NewCondition Creating [] [])\<lparr>dcStatus := ConditionFalse\<rparr>,
           NewCondition Ready [] []],
        Port := 6379, Endpoint := ''172.16.0.1'', MemberClusters := [cacheClusterID]\<rparr>)
        replicationGroup,
      False,
      [(DescribeReplicationGroups, True), (DescribeCacheClusters cacheClusterID, True),
       (ModifyReplicationGroup, True)])"
  by (simp add: sync_eval)

lemma TestSync_FailedDescribeReplicationGroups:
  "Sync K needsUpdate (mockClient (Inl errorBoom))
     (withStatus (\<lambda>s. s\<lparr>GroupName := ''coolGroup'',
        Conditions := [NewCondition Creating [] []]\<rparr>) replicationGroup)
   = (withStatus (\<lambda>s. s\<lparr>GroupName := ''coolGroup'',
        Conditions :=
          [NewCondition Creating [] [],
           NewCondition Failed (reasonSyncingResource K) ''boom'']\<rparr>) replicationGroup,
      True, [(DescribeReplicationGroups, False)])"
  by (simp add: sync_eval)

lemma TestSync_FailedDescribeCacheClusters:
  "Sync K needsUpdate
     ((mockClient (Inr ((statusOnly StatusAvailable)\<lparr>awsMemberClusters := [cacheClusterID]\<rparr>)))
        \<lparr>MockDescribeCacheClustersRequest := (\<lambda>cid. Inl errorBoom)\<rparr>)
     (withStatus (\<lambda>s. s\<lparr>GroupName := ''coolGroup'',
        Conditions := [NewCondition Creating [] []]\<rparr>) replicationGroup)
   = (withStatus (\<lambda>s. s\<lparr>State := StatusAvailable, GroupName := ''coolGroup'',
        Conditions :=
          [(NewCondition Creating [] [])\<lparr>dcStatus := ConditionFalse\<rparr>,
           NewCondition Ready [] [],
           NewCondition Failed (reasonSyncingResource K)
             (''cannot describe cache cluster '' @ cacheClusterID @ '': boom'')],
        MemberClusters := [cacheClusterID]\<rparr>) replicationGroup,
      True,
      [(DescribeReplicationGroups, True), (DescribeCacheClusters cacheClusterID, False)])"
  by (simp add: sync_eval)

lemma TestSync_FailedModifyReplicationGroup:
  "Sync K (\<lambda>g rg ccs. True)
     ((mockClient (Inr (describedGroup StatusAvailable)))
        \<lparr>MockModifyReplicationGroupRequest := Some errorBoom\<rparr>)
     (withStatus (\<lambda>s. s\<lparr>GroupName := ''coolGroup'',
        Conditions := [NewCondition Creating [] []]\<rparr>) replicationGroup)
   = (withStatus (\<lambda>s. s\<lparr>State := StatusAvailable, GroupName := ''coolGroup'',
        Conditions :=
          [(NewCondition Creating [] [])\<lparr>dcStatus := ConditionFalse\<rparr>,
           NewCondition Ready [] [],
           NewCondition Failed (reasonSyncingResource K) ''boom''],
        Port := 6379, Endpoint := ''172.16.0.1'', MemberClusters := [cacheClusterID]\<rparr>)
        replicationGroup,
      True,
      [(DescribeReplicationGroups, True), (DescribeCacheClusters cacheClusterID, True),
       (ModifyReplicationGroup, False)])"
  by (simp add: sync_eval)

text \<open>
  C2. Create requeues and sends CreateReplicationGroup once. When the request succeeds,
  the resource has the Creating condition, true, the finalizer of the controller, and
  for its group name the prefix, a dash and the FNV-64a hash of its UID in hexadecimal.
  When the request fails, only the conditions of the resource change: the Failed
  condition is true with the reason for creating and the text of the error, and the
  conditions of other types are as before; finalizers and group name are untouched.
\<close>

theorem Create_requeues:
  assumes "Create K client g = (g', requeue, calls)"
  shows "requeue \<and>
         calls = [(CreateReplicationGroup, MockCreateReplicationGroupRequest client = None)] \<and>
         (case MockCreateReplicationGroupRequest client of
            None \<Rightarrow>
              GetCondition Creating (Conditions (rgStatus g')) = Some (NewCondition Creating [] []) \<and>
              finalizerName K \<in> set (omFinalizers (rgMeta g')) \<and>
              GroupName (rgStatus g')
                = NamePrefix K @ ''-'' @ toHex (uint (fnv64a (omUID (rgMeta g))))
          | Some err \<Rightarrow>
              g' = g\<lparr>rgStatus := (rgStatus g)\<lparr>Conditions := Conditions (rgStatus g')\<rparr>\<rparr> \<and>
              GetCondition Failed (Conditions (rgStatus g'))
                = Some (NewCondition Failed (reasonCreatingResource K) (Error err)) \<and>
              filter (\<lambda>c. dcType c \<noteq> Failed) (Conditions (rgStatus g'))
                = filter (\<lambda>c. dcType c \<noteq> Failed) (Conditions (rgStatus g)) \<and>
              omFinalizers (rgMeta g') = omFinalizers (rgMeta g) \<and>
              GroupName (rgStatus g') = GroupName (rgStatus g))"
proof (cases "MockCreateReplicationGroupRequest client")
  case None
  have ty: "dcType (NewCondition Creating [] []) = Creating"
    by (simp add: NewCondition_def)
  from assms None show ?thesis
    using GetCondition_SetCondition_same [of "NewCondition Creating [] []" "Conditions (rgStatus g)"]
    by (auto simp: Create_def Let_def SetCreating_def AddFinalizer_def withConditions_def
        NewReplicationGroupID_def ty)
next
  case (Some err)
  have ty: "dcType (NewCondition Failed (reasonCreatingResource K) (Error err)) = Failed"
    by (simp add: NewCondition_def)
  from assms Some show ?thesis
    using GetCondition_SetCondition_same
      [of "NewCondition Failed (reasonCreatingResource K) (Error err)" "Conditions (rgStatus g)"]
      filter_SetCondition_other
      [of "NewCondition Failed (reasonCreatingResource K) (Error err)" "Conditions (rgStatus g)"]
    by (auto simp: Create_def SetFailed_def withConditions_def ty)
qed

text \<open>The rows of \<^verbatim>\<open>TestCreate\<close>, run on the model.\<close>

lemma TestCreate_SuccessfulCreate:
  "Create K (mockClient d) (withAuth replicationGroup)
   = (withFinalizers [finalizerName K]
        (withStatus (\<lambda>s. s\<lparr>Conditions := [NewCondition Creating [] []],
           GroupName := NamePrefix K @ ''-efdd8494195d7940''\<rparr>) (withAuth replicationGroup)),
      True, [(CreateReplicationGroup, True)])"
  by (simp add: Create_def Let_def mockClient_def withAuth_def withFinalizers_def withStatus_def
      SetCreating_def AddFinalizer_def withConditions_def NewReplicationGroupID_def
      replicationGroup_def fnv64a_test_uid toHex_test_sum)

lemma TestCreate_FailedCreate:
  "Create K ((mockClient d)\<lparr>MockCreateReplicationGroupRequest := Some errorBoom\<rparr>) replicationGroup
   = (withStatus (\<lambda>s. s\<lparr>Conditions :=
          [NewCondition Failed (reasonCreatingResource K) ''boom'']\<rparr>) replicationGroup,
      True, [(CreateReplicationGroup, False)])"
  by (simp add: Create_def mockClient_def withStatus_def SetFailed_def withConditions_def
      replicationGroup_def errorBoom_def)

theorem Create_requeues_witness:
  "Create exDeps (mockClient (Inl errorBoom)) (withAuth replicationGroup)
   = (withFinalizers [''finalizer.replicationgroup'']
        (withStatus (\<lambda>s. s\<lparr>Conditions := [NewCondition Creating [] []],
           GroupName := ''ec-efdd8494195d7940''\<rparr>) (withAuth replicationGroup)),
      True, [(CreateReplicationGroup, True)]) \<and>
   MockCreateReplicationGroupRequest (mockClient (Inl errorBoom)) = None \<and>
   ''finalizer.replicationgroup'' \<in> set (omFinalizers (rgMeta
      (withFinalizers [''finalizer.replicationgroup'']
        (withStatus (\<lambda>s. s\<lparr>Conditions := [NewCondition Creating [] []],
           GroupName := ''ec-efdd8494195d7940''\<rparr>) (withAuth replicationGroup)))))"
proof -
  have run: "Create exDeps (mockClient (Inl errorBoom)) (withAuth replicationGroup)
      = (withFinalizers [''finalizer.replicationgroup'']
           (withStatus (\<lambda>s. s\<lparr>Conditions := [NewCondition Creating [] []],
              GroupName := ''ec-efdd8494195d7940''\<rparr>) (withAuth replicationGroup)),
         True, [(CreateReplicationGroup, True)])"
    using TestCreate_SuccessfulCreate [of exDeps "Inl errorBoom"] by (simp add: exDeps_def)
  have ok: "MockCreateReplicationGroupRequest (mockClient (Inl errorBoom)) = None"
    by (simp add: mockClient_def)
  from Create_requeues [OF run] ok
  have "finalizerName exDeps \<in> set (omFinalizers (rgMeta
      (withFinalizers [''finalizer.replicationgroup'']
        (withStatus (\<lambda>s. s\<lparr>Conditions := [NewCondition Creating [] []],
           GroupName := ''ec-efdd8494195d7940''\<rparr>) (withAuth replicationGroup)))))"
    by simp
  with run ok show ?thesis by (simp add: exDeps_def)
qed

text \<open>
  C3. Under the reclaim policy Retain, Delete sends no request, removes the finalizer,
  sets the Deleting condition and does not requeue. Under the reclaim policy Delete it
  sends DeleteReplicationGroup once; when that succeeds the outcome is the same, and
  when it fails the finalizers and the Deleting condition stay as they were, the Failed
  condition is true with the reason for deleting and the text of the error, and Delete
  requeues.
\<close>

theorem Delete_finalizer_and_requeue:
  assumes "Delete K client g = (g', requeue, calls)"
  shows "(ReclaimPolicy (rgSpec g) = ReclaimRetain \<longrightarrow>
            calls = [] \<and> \<not> requeue \<and>
            finalizerName K \<notin> set (omFinalizers (rgMeta g')) \<and>
            GetCondition Deleting (Conditions (rgStatus g')) = Some (NewCondition Deleting [] [])) \<and>
         (ReclaimPolicy (rgSpec g) = ReclaimDelete \<longrightarrow>
            calls = [(DeleteReplicationGroup, MockDeleteReplicationGroupRequest client = None)] \<and>
            (case MockDeleteReplicationGroupRequest client of
               None \<Rightarrow>
                 \<not> requeue \<and>
                 finalizerName K \<notin> set (omFinalizers (rgMeta g')) \<and>
                 GetCondition Deleting (Conditions (rgStatus g'))
                   = Some (NewCondition Deleting [] [])
             | Some err \<Rightarrow>
                 requeue \<and>
                 omFinalizers (rgMeta g') = omFinalizers (rgMeta g) \<and>
                 GetCondition Deleting (Conditions (rgStatus g'))
                   = GetCondition Deleting (Conditions (rgStatus g)) \<and>
                 GetCondition Failed (Conditions (rgStatus g'))
                   = Some (NewCondition Failed (reasonDeletingResource K) (Error err))))"
proof -
  have tyD: "dcType (NewCondition Deleting [] []) = Deleting"
    by (simp add: NewCondition_def)
  have tyF: "dcType (NewCondition Failed r m) = Failed" for r m
    by (simp add: NewCondition_def)
  have ne: "ReclaimRetain \<noteq> ReclaimDelete"
    by (simp add: ReclaimRetain_def ReclaimDelete_def)
  have removed:
    "finalizerName K \<notin> set (omFinalizers (rgMeta (RemoveFinalizer (finalizerName K) (SetDeleting g))))"
    "GetCondition Deleting (Conditions (rgStatus (RemoveFinalizer (finalizerName K) (SetDeleting g))))
       = Some (NewCondition Deleting [] [])"
    using GetCondition_SetCondition_same [of "NewCondition Deleting [] []" "Conditions (rgStatus g)"]
    by (simp_all add: RemoveFinalizer_def SetDeleting_def withConditions_def tyD)
  have kept:
    "omFinalizers (rgMeta (SetFailed r m g)) = omFinalizers (rgMeta g)"
    "GetCondition Deleting (Conditions (rgStatus (SetFailed r m g)))
       = GetCondition Deleting (Conditions (rgStatus g))"
    "GetCondition Failed (Conditions (rgStatus (SetFailed r m g))) = Some (NewCondition Failed r m)"
    for r m
    using GetCondition_SetCondition_same [of "NewCondition Failed r m" "Conditions (rgStatus g)"]
      GetCondition_SetCondition_other [of Deleting "NewCondition Failed r m" "Conditions (rgStatus g)"]
    by (simp_all add: SetFailed_def withConditions_def tyF)
  show ?thesis
  proof (cases "ReclaimPolicy (rgSpec g) = ReclaimDelete")
    case False
    with assms have "g' = RemoveFinalizer (finalizerName K) (SetDeleting g)" "\<not> requeue" "calls = []"
      by (auto simp: Delete_def)
    with False removed show ?thesis by simp
  next
    case True
    show ?thesis
    proof (cases "MockDeleteReplicationGroupRequest client")
      case None
      with assms True have "g' = RemoveFinalizer (finalizerName K) (SetDeleting g)" "\<not> requeue"
        "calls = [(DeleteReplicationGroup, True)]"
        by (auto simp: Delete_def)
      with True None ne removed show ?thesis by simp
    next
      case (Some err)
      with assms True have "g' = SetFailed (reasonDeletingResource K) (Error err) g" "requeue"
        "calls = [(DeleteReplicationGroup, False)]"
        by (auto simp: Delete_def)
      with True Some ne kept show ?thesis by simp
    qed
  qed
qed

text \<open>The rows of \<^verbatim>\<open>TestDelete\<close>, run on the model.\<close>

lemmas delete_eval =
  Delete_def mockClient_def withFinalizers_def withReclaimPolicy_def withStatus_def
  replicationGroup_def SetDeleting_def SetFailed_def RemoveFinalizer_def withConditions_def
  ReclaimDelete_def ReclaimRetain_def errorBoom_def

lemma TestDelete_ReclaimRetainSuccessfulDelete:
  "Delete K client (withFinalizers [finalizerName K] (withReclaimPolicy ReclaimRetain replicationGroup))
   = (withReclaimPolicy ReclaimRetain
        (withStatus (\<lambda>s. s\<lparr>Conditions := [NewCondition Deleting [] []]\<rparr>) replicationGroup),
      False, [])"
  by (simp add: delete_eval)

lemma TestDelete_ReclaimDeleteSuccessfulDelete:
  "Delete K (mockClient d)
     (withFinalizers [finalizerName K] (withReclaimPolicy ReclaimDelete replicationGroup))
   = (withReclaimPolicy ReclaimDelete
        (withStatus (\<lambda>s. s\<lparr>Conditions := [NewCondition Deleting [] []]\<rparr>) replicationGroup),
      False, [(DeleteReplicationGroup, True)])"
  by (simp add: delete_eval)

lemma TestDelete_ReclaimDeleteFailedDelete:
  "Delete K ((mockClient d)\<lparr>MockDeleteReplicationGroupRequest := Some errorBoom\<rparr>)
     (withFinalizers [finalizerName K] (withReclaimPolicy ReclaimDelete replicationGroup))
   = (withFinalizers [finalizerName K]
        (withReclaimPolicy ReclaimDelete
          (withStatus (\<lambda>s. s\<lparr>Conditions :=
             [NewCondition Failed (reasonDeletingResource K) ''boom'']\<rparr>) replicationGroup)),
      True, [(DeleteReplicationGroup, False)])"
  by (simp add: delete_eval)

theorem Delete_finalizer_and_requeue_witness:
  "Delete exDeps ((mockClient (Inl errorBoom))\<lparr>MockDeleteReplicationGroupRequest := Some errorBoom\<rparr>)
     (withFinalizers [finalizerName exDeps] (withReclaimPolicy ReclaimDelete replicationGroup))
   = (withFinalizers [finalizerName exDeps]
        (withReclaimPolicy ReclaimDelete
          (withStatus (\<lambda>s. s\<lparr>Conditions :=
             [NewCondition Failed (reasonDeletingResource exDeps) ''boom'']\<rparr>) replicationGroup)),
      True, [(DeleteReplicationGroup, False)]) \<and>
   ReclaimPolicy (rgSpec (withFinalizers [finalizerName exDeps]
      (withReclaimPolicy ReclaimDelete replicationGroup))) = ReclaimDelete \<and>
   omFinalizers (rgMeta (withFinalizers [finalizerName exDeps]
        (withReclaimPolicy ReclaimDelete
          (withStatus (\<lambda>s. s\<lparr>Conditions :=
             [NewCondition Failed (reasonDeletingResource exDeps) ''boom'']\<rparr>) replicationGroup))))
     = [finalizerName exDeps]"
proof -
  let ?c = "(mockClient (Inl errorBoom))\<lparr>MockDeleteReplicationGroupRequest := Some errorBoom\<rparr>"
  let ?g = "withFinalizers [finalizerName exDeps] (withReclaimPolicy ReclaimDelete replicationGroup)"
  let ?g' = "withFinalizers [finalizerName exDeps]
        (withReclaimPolicy ReclaimDelete
          (withStatus (\<lambda>s. s\<lparr>Conditions :=
             [NewCondition Failed (reasonDeletingResource exDeps) ''boom'']\<rparr>) replicationGroup))"
  have run: "Delete exDeps ?c ?g = (?g', True, [(DeleteReplicationGroup, False)])"
    by (rule TestDelete_ReclaimDeleteFailedDelete)
  have pol: "ReclaimPolicy (rgSpec ?g) = ReclaimDelete"
    by (simp add: withFinalizers_def withReclaimPolicy_def)
  have fin: "omFinalizers (rgMeta ?g) = [finalizerName exDeps]"
    by (simp add: withFinalizers_def)
  from Delete_finalizer_and_requeue [OF run] pol fin
  have "omFinalizers (rgMeta ?g') = [finalizerName exDeps]"
    by simp
  with run pol show ?thesis by simp
qed

text \<open>
  C4. When the endpoint key and the password key differ, the connection secret of a
  group r and a password p is named by r's connection secret reference, lies in r's
  namespace, has the one owner reference to r (API version, kind, name, UID), and its
  data holds the endpoint of r under the endpoint key, p under the password key, and
  nothing else.
\<close>

theorem connectionSecret_fields:
  assumes "ResourceCredentialsSecretEndpointKey K \<noteq> ResourceCredentialsSecretPasswordKey K"
  shows "secName (connectionSecret K r p) = ConnectionSecretRef (rgSpec r) \<and>
         secNamespace (connectionSecret K r p) = omNamespace (rgMeta r) \<and>
         secOwnerReferences (connectionSecret K r p) =
           [\<lparr>orAPIVersion = APIVersion K, orKind = ReplicationGroupKind K,
             orName = omName (rgMeta r), orUID = omUID (rgMeta r)\<rparr>] \<and>
         secData (connectionSecret K r p) (ResourceCredentialsSecretEndpointKey K)
           = Some (Endpoint (rgStatus r)) \<and>
         secData (connectionSecret K r p) (ResourceCredentialsSecretPasswordKey K) = Some p \<and>
         dom (secData (connectionSecret K r p))
           = {ResourceCredentialsSecretEndpointKey K, ResourceCredentialsSecretPasswordKey K}"
  using assms by (auto simp: connectionSecret_def)

text \<open>The row of \<^verbatim>\<open>TestConnectionSecret\<close>, run on the model.\<close>

theorem connectionSecret_fields_witness:
  "secName (connectionSecret exDeps
      (withStatus (\<lambda>s. s\<lparr>Endpoint := ''172.16.0.1''\<rparr>) replicationGroup) ''coolToken'')
     = ''cool-connection-secret'' \<and>
   secNamespace (connectionSecret exDeps
      (withStatus (\<lambda>s. s\<lparr>Endpoint := ''172.16.0.1''\<rparr>) replicationGroup) ''coolToken'')
     = ''coolNamespace'' \<and>
   secOwnerReferences (connectionSecret exDeps
      (withStatus (\<lambda>s. s\<lparr>Endpoint := ''172.16.0.1''\<rparr>) replicationGroup) ''coolToken'')
     = [\<lparr>orAPIVersion = APIVersion exDeps, orKind = ReplicationGroupKind exDeps,
         orName = ''coolGroup'', orUID = ''definitely-a-uuid''\<rparr>] \<and>
   secData (connectionSecret exDeps
      (withStatus (\<lambda>s. s\<lparr>Endpoint := ''172.16.0.1''\<rparr>) replicationGroup) ''coolToken'')
      ''endpoint'' = Some ''172.16.0.1'' \<and>
   secData (connectionSecret exDeps
      (withStatus (\<lambda>s. s\<lparr>Endpoint := ''172.16.0.1''\<rparr>) replicationGroup) ''coolToken'')
      ''password'' = Some ''coolToken''"
proof -
  have keys: "ResourceCredentialsSecretEndpointKey exDeps \<noteq> ResourceCredentialsSecretPasswordKey exDeps"
    by (simp add: exDeps_def)
  have k: "ResourceCredentialsSecretEndpointKey exDeps = ''endpoint''"
    "ResourceCredentialsSecretPasswordKey exDeps = ''password''"
    by (simp_all add: exDeps_def)
  show ?thesis
    using connectionSecret_fields [OF keys,
      of "withStatus (\<lambda>s. s\<lparr>Endpoint := ''172.16.0.1''\<rparr>) replicationGroup" "''coolToken''"]
    unfolding k
    by (simp add: withStatus_def replicationGroup_def)
qed

end
